theory Spec2Isabelle
  imports Complex_Main "HOL-Library.Multiset"
begin

section \<open>Python values used by the server\<close>

text \<open>
  Exceptions that the modelled code can raise. \<open>ConnectionFailed\<close> is the
  \<^verbatim>\<open>Exception\<close> that \<^verbatim>\<open>get_arduino\<close> raises when the serial port cannot be opened.
\<close>

datatype exn = ValueError | IndexError | TypeError | UnicodeDecodeError | ConnectionFailed

text \<open>
  A Python float is a finite value, an infinity or NaN. The program only compares floats
  (\<^verbatim>\<open><\<close>) and prints them; comparison of IEEE values is exact, so a finite float is
  modelled by the real number it denotes. Parsing (\<^verbatim>\<open>float(s)\<close>) and printing
  (\<^verbatim>\<open>{d:.2f}\<close>) round, and are taken as parameters (record \<open>builtins\<close> below).
\<close>

datatype pyfloat = Finite real | PosInf | NegInf | NaN

fun float_lt :: "pyfloat \<Rightarrow> pyfloat \<Rightarrow> bool" where
  "float_lt NaN _ = False"
| "float_lt _ NaN = False"
| "float_lt (Finite a) (Finite b) = (a < b)"
| "float_lt (Finite a) PosInf = True"
| "float_lt (Finite a) NegInf = False"
| "float_lt PosInf _ = False"
| "float_lt NegInf NegInf = False"
| "float_lt NegInf _ = True"

fun float_ge :: "pyfloat \<Rightarrow> pyfloat \<Rightarrow> bool" where
  "float_ge NaN _ = False"
| "float_ge _ NaN = False"
| "float_ge (Finite a) (Finite b) = (a \<ge> b)"
| "float_ge (Finite a) PosInf = False"
| "float_ge (Finite a) NegInf = True"
| "float_ge PosInf _ = True"
| "float_ge NegInf NegInf = True"
| "float_ge NegInf _ = False"

record builtins =
  py_float :: "string \<Rightarrow> pyfloat option"
  fmt_2f :: "pyfloat \<Rightarrow> string"

subsection \<open>Strings\<close>

definition starts_with :: "string \<Rightarrow> string \<Rightarrow> bool" where
  "starts_with p s = (take (length p) s = p)"

text \<open>\<^verbatim>\<open>s.split(c)\<close> for a one-character separator: never the empty list.\<close>

fun py_split :: "char \<Rightarrow> string \<Rightarrow> string list" where
  "py_split c [] = [[]]"
| "py_split c (x # xs) =
     (if x = c then [] # py_split c xs
      else (case py_split c xs of [] \<Rightarrow> [[x]] | w # ws \<Rightarrow> (x # w) # ws))"

text \<open>\<^verbatim>\<open>s.split(c, n)\<close>: at most \<open>n\<close> splits, the rest of the string is the last item.\<close>

fun py_split_max :: "char \<Rightarrow> nat \<Rightarrow> string \<Rightarrow> string list" where
  "py_split_max c 0 s = [s]"
| "py_split_max c (Suc n) [] = [[]]"
| "py_split_max c (Suc n) (x # xs) =
     (if x = c then [] # py_split_max c n xs
      else (case py_split_max c (Suc n) xs of [] \<Rightarrow> [[x]] | w # ws \<Rightarrow> (x # w) # ws))"

text \<open>\<^verbatim>\<open>xs[i]\<close> for a non-negative index: IndexError out of range.\<close>

definition py_index :: "'a list \<Rightarrow> nat \<Rightarrow> exn + 'a" where
  "py_index xs i = (if i < length xs then Inr (xs ! i) else Inl IndexError)"

text \<open>
  \<^verbatim>\<open>int(s)\<close> in base 10. A character of the model is a code point up to 255; text with
  other characters is outside the model. The blanks that \<^verbatim>\<open>int\<close> drops at both ends are
  tab to carriage return, the space, U+0085 and U+00A0 (the separators U+001C to U+001F
  are blanks for \<^verbatim>\<open>str.strip\<close> but not for \<^verbatim>\<open>int\<close>); then comes an optional sign,
  then digits with single underscores between them. The interpreter's configurable limit
  on the number of digits is not modelled.
\<close>

definition py_space :: "char \<Rightarrow> bool" where
  "py_space c = ((of_char c :: nat) \<in> {9, 10, 11, 12, 13, 32, 133, 160})"

definition py_strip :: "string \<Rightarrow> string" where
  "py_strip s = rev (dropWhile py_space (rev (dropWhile py_space s)))"

definition digit_val :: "char \<Rightarrow> nat option" where
  "digit_val c =
     (let n = (of_char c :: nat) in if 48 \<le> n \<and> n \<le> 57 then Some (n - 48) else None)"

fun py_digits :: "nat \<Rightarrow> string \<Rightarrow> nat option" where
  "py_digits acc [] = Some acc"
| "py_digits acc (c # cs) =
     (if c = CHR ''_'' then
        (case cs of
           [] \<Rightarrow> None
         | d # ds \<Rightarrow>
             (case digit_val d of None \<Rightarrow> None | Some v \<Rightarrow> py_digits (acc * 10 + v) ds))
      else (case digit_val c of None \<Rightarrow> None | Some v \<Rightarrow> py_digits (acc * 10 + v) cs))"

definition py_nat :: "string \<Rightarrow> nat option" where
  "py_nat s =
     (case s of
        [] \<Rightarrow> None
      | c # cs \<Rightarrow> (case digit_val c of None \<Rightarrow> None | Some v \<Rightarrow> py_digits v cs))"

definition py_int :: "string \<Rightarrow> int option" where
  "py_int s =
     (case py_strip s of
        [] \<Rightarrow> None
      | c # cs \<Rightarrow>
          if c = CHR ''-'' then map_option (\<lambda>n. - int n) (py_nat cs)
          else if c = CHR ''+'' then map_option int (py_nat cs)
          else map_option int (py_nat (c # cs)))"

text \<open>\<^verbatim>\<open>f"{n}"\<close> for an integer: decimal digits, a minus sign when negative.\<close>

definition digit_char :: "nat \<Rightarrow> char" where
  "digit_char n = ''0123456789'' ! n"

fun show_nat :: "nat \<Rightarrow> string" where
  "show_nat n = (if n < 10 then [digit_char n] else show_nat (n div 10) @ [digit_char (n mod 10)])"

declare show_nat.simps [simp del]

definition show_int :: "int \<Rightarrow> string" where
  "show_int i = (if i < 0 then CHR ''-'' # show_nat (nat (- i)) else show_nat (nat i))"

text \<open>\<^verbatim>\<open>f"{x:02d}"\<close>: at least two characters, padded with a zero.\<close>

definition pad2 :: "int \<Rightarrow> string" where
  "pad2 x = (if 0 \<le> x \<and> x < 10 then CHR ''0'' # show_int x else show_int x)"

text \<open>
  \<^verbatim>\<open>s.isdigit()\<close> on code points up to 255: the ten digits and the superscripts one, two
  and three.
\<close>

definition py_isdigit :: "string \<Rightarrow> bool" where
  "py_isdigit s =
     (s \<noteq> [] \<and> list_all (\<lambda>c. (of_char c :: nat) \<in> {48, 49, 50, 51, 52, 53, 54, 55, 56, 57,
        178, 179, 185}) s)"

section \<open>The server: telemetry, pending actions and the link\<close>

text \<open>
  \<^verbatim>\<open>arduino_state\<close>, the dictionary updated by the background monitor. The time stamp is
  the value of \<^verbatim>\<open>time.time()\<close> at the update, handed to the model with each line.
\<close>

record telemetry =
  timer_remaining :: int
  timer_active :: bool
  clock_time :: "string option"
  distance :: pyfloat
  last_update :: real

text \<open>
  A pending action is a dictionary with the keys \<^verbatim>\<open>trigger\<close>, \<^verbatim>\<open>action_type\<close>,
  \<^verbatim>\<open>params\<close> and, for two triggers, \<^verbatim>\<open>target_time\<close> or \<^verbatim>\<open>target_distance\<close>. The trigger
  and its target are one tagged value here; \<^verbatim>\<open>params\<close> is one of the five dictionary
  shapes the registration tools build.
\<close>

text \<open>
  The constructors stand for the trigger strings \<^verbatim>\<open>timer_zero\<close>, \<^verbatim>\<open>time_equals\<close>,
  \<^verbatim>\<open>distance_less_than\<close> and \<^verbatim>\<open>distance_update\<close>.
\<close>

datatype trigger =
    Timer_zero
  | Time_equals string
  | Distance_less_than pyfloat
  | Distance_update

datatype params =
    NoParams
  | Duration int
  | MinSec int int
  | Interval int
  | Lines string string

record action =
  trigger :: trigger
  action_type :: string
  params :: params

text \<open>
  The program state. \<open>conn_open\<close> says that \<^verbatim>\<open>arduino_connection\<close> is an open port
  (nothing in the program closes it); \<open>port_ok\<close> says whether opening the port would
  succeed. \<open>sent\<close> lists the commands written by \<^verbatim>\<open>send_command\<close>, oldest first, and
  \<open>executed\<close> lists the actions handed to \<^verbatim>\<open>execute_action\<close>, oldest first: both are
  traces kept for stating properties.
\<close>

record state =
  arduino_state :: telemetry
  pending_actions :: "action list"
  conn_open :: bool
  port_ok :: bool
  sent :: "string list"
  executed :: "action list"

definition get_arduino :: "state \<Rightarrow> exn + state" where
  "get_arduino s =
     (if conn_open s then Inr s
      else if port_ok s then Inr (s\<lparr>conn_open := True\<rparr>)
      else Inl ConnectionFailed)"

text \<open>
  \<^verbatim>\<open>send_command\<close>: raises when the port cannot be opened; a failure of the write itself
  is swallowed by its \<^verbatim>\<open>try\<close>, and every caller modelled here ignores the response.
\<close>

definition send_command :: "string \<Rightarrow> state \<Rightarrow> exn + state" where
  "send_command command s =
     (case get_arduino s of
        Inl e \<Rightarrow> Inl e
      | Inr s1 \<Rightarrow> Inr (s1\<lparr>sent := sent s1 @ [command]\<rparr>))"

text \<open>
  A statement that ends a \<^verbatim>\<open>try\<close> block: the state it reached is kept when it raises
  (\<^verbatim>\<open>except Exception\<close> only prints).
\<close>

definition swallow :: "state \<Rightarrow> exn + state \<Rightarrow> state" where
  "swallow s r = (case r of Inl e \<Rightarrow> s | Inr s1 \<Rightarrow> s1)"

definition duration_of :: "params \<Rightarrow> int" where
  "duration_of p = (case p of Duration d \<Rightarrow> d | _ \<Rightarrow> 1000)"

definition interval_of :: "params \<Rightarrow> int" where
  "interval_of p = (case p of Interval d \<Rightarrow> d | _ \<Rightarrow> 1000)"

definition minutes_of :: "params \<Rightarrow> int" where
  "minutes_of p = (case p of MinSec m n \<Rightarrow> m | _ \<Rightarrow> 0)"

definition seconds_of :: "params \<Rightarrow> int" where
  "seconds_of p = (case p of MinSec m n \<Rightarrow> n | _ \<Rightarrow> 0)"

definition line1_of :: "params \<Rightarrow> string" where
  "line1_of p = (case p of Lines a b \<Rightarrow> a | _ \<Rightarrow> [])"

definition line2_of :: "params \<Rightarrow> string" where
  "line2_of p = (case p of Lines a b \<Rightarrow> b | _ \<Rightarrow> [])"

text \<open>
  \<^verbatim>\<open>execute_action\<close>. No registration tool stores a \<^verbatim>\<open>command\<close> key, so
  \<^verbatim>\<open>custom_command\<close> sends the default, the empty command. An action type outside the
  five sends nothing.
\<close>

definition execute_action :: "action \<Rightarrow> state \<Rightarrow> state" where
  "execute_action a s0 =
     (let s = s0\<lparr>executed := executed s0 @ [a]\<rparr>; p = params a in
      if action_type a = ''buzzer_beep'' then
        swallow s (send_command (''BUZZER:BEEP:'' @ show_int (duration_of p)) s)
      else if action_type a = ''start_timer'' then
        swallow s (send_command
          (''TM1637:COUNTDOWN:'' @ show_int (minutes_of p * 60 + seconds_of p)) s)
      else if action_type a = ''led_blink'' then
        swallow s (send_command (''LED:BLINK:'' @ show_int (interval_of p)) s)
      else if action_type a = ''display_message'' then
        (case send_command (''LCD:LINE1:'' @ line1_of p) s of
           Inl e \<Rightarrow> s
         | Inr s1 \<Rightarrow> swallow s1 (send_command (''LCD:LINE2:'' @ line2_of p) s1))
      else if action_type a = ''custom_command'' then
        swallow s (send_command [] s)
      else s)"

subsection \<open>The background monitor\<close>

text \<open>
  The three loops of the monitor that run over a copy of \<^verbatim>\<open>pending_actions\<close>, execute
  each action whose trigger matches and remove it from the live list. \<^verbatim>\<open>list.remove\<close>
  deletes the first equal item and raises ValueError when there is none. The second
  component of the result is the state reached; the first is the exception that ended
  the loop, if any.
\<close>

fun fire_loop :: "(action \<Rightarrow> bool) \<Rightarrow> action list \<Rightarrow> state \<Rightarrow> exn option \<times> state" where
  "fire_loop m [] s = (None, s)"
| "fire_loop m (a # as) s =
     (if m a then
        (let s1 = execute_action a s in
         if a \<in> set (pending_actions s1)
         then fire_loop m as (s1\<lparr>pending_actions := remove1 a (pending_actions s1)\<rparr>)
         else (Some ValueError, s1))
      else fire_loop m as s)"

text \<open>
  The loop that echoes a distance to the display for every \<^verbatim>\<open>distance_update\<close> action.
  Here \<^verbatim>\<open>send_command\<close> is called outside any \<^verbatim>\<open>try\<close> of its own.
\<close>

fun echo_loop :: "string \<Rightarrow> action list \<Rightarrow> state \<Rightarrow> exn option \<times> state" where
  "echo_loop cmd [] s = (None, s)"
| "echo_loop cmd (a # as) s =
     (if trigger a = Distance_update then
        (case send_command cmd s of
           Inl e \<Rightarrow> (Some e, s)
         | Inr s1 \<Rightarrow> echo_loop cmd as s1)
      else echo_loop cmd as s)"

definition below :: "pyfloat \<Rightarrow> action \<Rightarrow> bool" where
  "below d a = (case trigger a of Distance_less_than t \<Rightarrow> float_lt d t | _ \<Rightarrow> False)"

text \<open>
  What one iteration of \<^verbatim>\<open>monitor_arduino_status\<close> does with a received line (already
  decoded and stripped) at time \<open>now\<close>. An exception leaves the \<^verbatim>\<open>try\<close> block with the
  state reached so far; the monitor then sleeps and goes on with the next line.
\<close>

definition monitor_line :: "builtins \<Rightarrow> real \<Rightarrow> string \<Rightarrow> state \<Rightarrow> exn option \<times> state" where
  "monitor_line b now line s =
     (if starts_with ''TIMER:REMAINING:'' line then
        (case py_index (py_split CHR '':'' line) 2 of
           Inl e \<Rightarrow> (Some e, s)
         | Inr x \<Rightarrow>
             (case py_int x of
                None \<Rightarrow> (Some ValueError, s)
              | Some remaining \<Rightarrow>
                  (None, s\<lparr>arduino_state := (arduino_state s)
                     \<lparr>timer_remaining := remaining, timer_active := True, last_update := now\<rparr>\<rparr>)))
      else if starts_with ''COUNTDOWN:FINISHED'' line then
        (let s1 = s\<lparr>arduino_state := (arduino_state s)
                     \<lparr>timer_remaining := 0, timer_active := False, last_update := now\<rparr>\<rparr>
         in fire_loop (\<lambda>a. trigger a = Timer_zero) (pending_actions s1) s1)
      else if starts_with ''CLOCK:LCD:'' line then
        (case py_index (py_split_max CHR '':'' 2 line) 2 of
           Inl e \<Rightarrow> (Some e, s)
         | Inr time_str \<Rightarrow>
             (let s1 = s\<lparr>arduino_state := (arduino_state s)
                        \<lparr>clock_time := Some time_str, last_update := now\<rparr>\<rparr>
              in fire_loop (\<lambda>a. trigger a = Time_equals time_str) (pending_actions s1) s1))
      else if starts_with ''DISTANCE:'' line then
        (case py_index (py_split CHR '':'' line) 1 of
           Inl e \<Rightarrow> (Some e, s)
         | Inr x \<Rightarrow>
             (case py_float b x of
                None \<Rightarrow> (Some ValueError, s)
              | Some d \<Rightarrow>
                  (let s1 = s\<lparr>arduino_state := (arduino_state s)
                             \<lparr>distance := d, last_update := now\<rparr>\<rparr>
                   in case echo_loop (''LCD:LINE2:'' @ fmt_2f b d @ '' cm       '')
                             (pending_actions s1) s1 of
                        (Some e, s2) \<Rightarrow> (Some e, s2)
                      | (None, s2) \<Rightarrow> fire_loop (below d) (pending_actions s2) s2)))
      else (None, s))"

text \<open>
  One iteration of the monitor's loop on a received line: \<^verbatim>\<open>get_arduino\<close> first, then
  the line. \<open>monitor_arduino_status\<close> runs the iterations over the lines received, each
  with the time of its arrival.
\<close>

definition monitor_iteration :: "builtins \<Rightarrow> real \<times> string \<Rightarrow> state \<Rightarrow> state" where
  "monitor_iteration b inp s =
     (case get_arduino s of
        Inl e \<Rightarrow> s
      | Inr s1 \<Rightarrow> snd (monitor_line b (fst inp) (snd inp) s1))"

fun monitor_arduino_status :: "builtins \<Rightarrow> (real \<times> string) list \<Rightarrow> state \<Rightarrow> state" where
  "monitor_arduino_status b [] s = s"
| "monitor_arduino_status b (inp # inps) s =
     monitor_arduino_status b inps (monitor_iteration b inp s)"

subsection \<open>The tools\<close>

text \<open>
  What a tool call gives back: its confirmation message (\<open>Success\<close>; the text is not
  modelled), an error message returned early, or an exception that leaves the tool.
\<close>

datatype outcome = Success | ErrorReturn string | Raised exn

definition lcd_write_line1 :: "string \<Rightarrow> state \<Rightarrow> outcome \<times> state" where
  "lcd_write_line1 text s =
     (case send_command (''LCD:LINE1:'' @ take 16 text) s of
        Inl e \<Rightarrow> (Raised e, s)
      | Inr s1 \<Rightarrow> (Success, s1))"

definition lcd_write_line2 :: "string \<Rightarrow> state \<Rightarrow> outcome \<times> state" where
  "lcd_write_line2 text s =
     (case send_command (''LCD:LINE2:'' @ take 16 text) s of
        Inl e \<Rightarrow> (Raised e, s)
      | Inr s1 \<Rightarrow> (Success, s1))"

definition lcd_display_message :: "string \<Rightarrow> string \<Rightarrow> state \<Rightarrow> outcome \<times> state" where
  "lcd_display_message line1 line2 s =
     (let l1 = take 16 line1; l2 = take 16 line2 in
      case send_command (''LCD:LINE1:'' @ l1) s of
        Inl e \<Rightarrow> (Raised e, s)
      | Inr s1 \<Rightarrow>
          if l2 \<noteq> [] then
            (case send_command (''LCD:LINE2:'' @ l2) s1 of
               Inl e \<Rightarrow> (Raised e, s1)
             | Inr s2 \<Rightarrow> (Success, s2))
          else (Success, s1))"

definition display_timer :: "int \<Rightarrow> int \<Rightarrow> state \<Rightarrow> outcome \<times> state" where
  "display_timer minutes seconds s =
     (if minutes < 0 \<or> minutes > 99 \<or> seconds < 0 \<or> seconds > 59 then
        (ErrorReturn ''Error: Minutes must be 0-99 and seconds must be 0-59'', s)
      else
        (case send_command (''TM1637:COUNTDOWN:'' @ show_int (minutes * 60 + seconds)) s of
           Inl e \<Rightarrow> (Raised e, s)
         | Inr s1 \<Rightarrow> (Success, s1)))"

text \<open>
  The parsing of \<^verbatim>\<open>action_params\<close>, which the three registration tools repeat word for
  word; only the message returned for a timer without a colon differs, and is the first
  argument here. \<^verbatim>\<open>action_params\<close> is an optional string.
\<close>

datatype parsed = Params params | EarlyReturn string | Raise exn

definition int_or_1000 :: "string option \<Rightarrow> parsed" where
  "int_or_1000 action_params =
     (case action_params of
        None \<Rightarrow> Params (Duration 1000)
      | Some ap \<Rightarrow>
          if ap = [] then Params (Duration 1000)
          else (case py_int ap of None \<Rightarrow> Raise ValueError | Some i \<Rightarrow> Params (Duration i)))"

definition parse_action_params :: "string \<Rightarrow> string \<Rightarrow> string option \<Rightarrow> parsed" where
  "parse_action_params msg then_action action_params =
     (if then_action = ''buzzer_beep'' then int_or_1000 action_params
      else if then_action = ''start_timer'' then
        (case action_params of
           None \<Rightarrow> Raise TypeError
         | Some ap \<Rightarrow>
             if CHR '':'' \<in> set ap then
               (let parts = py_split CHR '':'' ap in
                case py_index parts 0 of
                  Inl e \<Rightarrow> Raise e
                | Inr p0 \<Rightarrow>
                    (case py_int p0 of
                       None \<Rightarrow> Raise ValueError
                     | Some m \<Rightarrow>
                         (case py_index parts 1 of
                            Inl e \<Rightarrow> Raise e
                          | Inr p1 \<Rightarrow>
                              (case py_int p1 of
                                 None \<Rightarrow> Raise ValueError
                               | Some n \<Rightarrow> Params (MinSec m n)))))
             else EarlyReturn msg)
      else if then_action = ''led_blink'' then
        (case int_or_1000 action_params of
           Params (Duration i) \<Rightarrow> Params (Interval i)
         | r \<Rightarrow> r)
      else if then_action = ''display_message'' then
        (case action_params of
           None \<Rightarrow> Raise TypeError
         | Some ap \<Rightarrow>
             if CHR ''|'' \<in> set ap then
               (let parts = py_split CHR ''|'' ap in
                case py_index parts 0 of
                  Inl e \<Rightarrow> Raise e
                | Inr p0 \<Rightarrow>
                    (case py_index parts 1 of
                       Inl e \<Rightarrow> Raise e
                     | Inr p1 \<Rightarrow> Params (Lines p0 p1)))
             else Params (Lines ap []))
      else Params NoParams)"

definition register :: "trigger \<Rightarrow> string \<Rightarrow> parsed \<Rightarrow> state \<Rightarrow> outcome \<times> state" where
  "register tr then_action r s =
     (case r of
        Raise e \<Rightarrow> (Raised e, s)
      | EarlyReturn msg \<Rightarrow> (ErrorReturn msg, s)
      | Params p \<Rightarrow>
          (Success, s\<lparr>pending_actions := pending_actions s @
             [\<lparr>trigger = tr, action_type = then_action, params = p\<rparr>]\<rparr>))"

definition when_timer_finishes :: "string \<Rightarrow> string option \<Rightarrow> state \<Rightarrow> outcome \<times> state" where
  "when_timer_finishes then_action action_params s =
     register Timer_zero then_action
       (parse_action_params
          (''Error: Timer format must be MM:SS (e.g., '' @ [CHR 0x27] @ ''02:00'' @ [CHR 0x27]
             @ '' for 2 minutes)'')
          then_action action_params) s"

text \<open>
  \<^verbatim>\<open>re.match(r'^\d{2}:\d{2}:\d{2}$', target_time)\<close>: the dollar also matches before a
  final newline.
\<close>

definition is_digit :: "char \<Rightarrow> bool" where
  "is_digit c = (digit_val c \<noteq> None)"

definition time_format_ok :: "string \<Rightarrow> bool" where
  "time_format_ok t =
     (let u = (if length t = 9 \<and> last t = CHR 0x0A then butlast t else t) in
      length u = 8 \<and> is_digit (u ! 0) \<and> is_digit (u ! 1) \<and> u ! 2 = CHR '':'' \<and>
      is_digit (u ! 3) \<and> is_digit (u ! 4) \<and> u ! 5 = CHR '':'' \<and>
      is_digit (u ! 6) \<and> is_digit (u ! 7))"

definition when_time_equals ::
  "string \<Rightarrow> string \<Rightarrow> string option \<Rightarrow> state \<Rightarrow> outcome \<times> state" where
  "when_time_equals target_time then_action action_params s =
     (if \<not> time_format_ok target_time then
        (ErrorReturn (''Error: Time must be in HH:MM:SS format (e.g., '' @ [CHR 0x27]
           @ ''14:30:00'' @ [CHR 0x27] @ '')''), s)
      else register (Time_equals target_time) then_action
             (parse_action_params ''Error: Timer format must be MM:SS'' then_action action_params) s)"

definition when_distance_less_than ::
  "pyfloat \<Rightarrow> string \<Rightarrow> string option \<Rightarrow> state \<Rightarrow> outcome \<times> state" where
  "when_distance_less_than distance_cm then_action action_params s =
     register (Distance_less_than distance_cm) then_action
       (parse_action_params ''Error: Timer format must be MM:SS'' then_action action_params) s"

definition show_live_ultrasonic_on_lcd :: "state \<Rightarrow> outcome \<times> state" where
  "show_live_ultrasonic_on_lcd s =
     (case send_command ''ULTRA:START'' s of
        Inl e \<Rightarrow> (Raised e, s)
      | Inr s1 \<Rightarrow>
          (let s2 = s1\<lparr>pending_actions := pending_actions s1 @
                     [\<lparr>trigger = Distance_update, action_type = ''update_lcd_distance'',
                       params = NoParams\<rparr>]\<rparr>
           in case send_command ''LCD:LINE1:Distance:'' s2 of
                Inl e \<Rightarrow> (Raised e, s2)
              | Inr s3 \<Rightarrow> (Success, s3)))"

text \<open>
  \<^verbatim>\<open>clear_all_pending_actions\<close>: the count is the number its message reports.
\<close>

definition clear_all_pending_actions :: "state \<Rightarrow> nat \<times> state" where
  "clear_all_pending_actions s = (length (pending_actions s), s\<lparr>pending_actions := []\<rparr>)"

subsection \<open>The remaining tools\<close>

text \<open>
  Most tools send a fixed sequence of commands. None of them catches the exception of
  \<^verbatim>\<open>send_command\<close>: the first one that raises ends the tool, and what was sent stays
  sent. A tool whose name the console controller below also uses carries the suffix
  \<open>_tool\<close>.
\<close>

fun send_commands :: "string list \<Rightarrow> state \<Rightarrow> outcome \<times> state" where
  "send_commands [] s = (Success, s)"
| "send_commands (c # cs) s =
     (case send_command c s of
        Inl e \<Rightarrow> (Raised e, s)
      | Inr s1 \<Rightarrow> send_commands cs s1)"

definition led_on :: "state \<Rightarrow> outcome \<times> state" where
  "led_on s = send_commands [''LED:ON''] s"

definition led_off :: "state \<Rightarrow> outcome \<times> state" where
  "led_off s = send_commands [''LED:OFF''] s"

definition led_blink :: "int \<Rightarrow> state \<Rightarrow> outcome \<times> state" where
  "led_blink interval_ms s = send_commands [''LED:BLINK:'' @ show_int interval_ms] s"

definition led_toggle :: "state \<Rightarrow> outcome \<times> state" where
  "led_toggle s = send_commands [''LED:TOGGLE''] s"

definition buzzer_on :: "state \<Rightarrow> outcome \<times> state" where
  "buzzer_on s = send_commands [''BUZZER:ON''] s"

definition buzzer_off :: "state \<Rightarrow> outcome \<times> state" where
  "buzzer_off s = send_commands [''BUZZER:OFF''] s"

definition buzzer_beep_tool :: "int \<Rightarrow> state \<Rightarrow> outcome \<times> state" where
  "buzzer_beep_tool duration_ms s = send_commands [''BUZZER:BEEP:'' @ show_int duration_ms] s"

definition lcd_clear :: "state \<Rightarrow> outcome \<times> state" where
  "lcd_clear s = send_commands [''LCD:CLEAR''] s"

definition lcd_backlight_on :: "state \<Rightarrow> outcome \<times> state" where
  "lcd_backlight_on s = send_commands [''LCD:BACKLIGHT:ON''] s"

definition lcd_backlight_off :: "state \<Rightarrow> outcome \<times> state" where
  "lcd_backlight_off s = send_commands [''LCD:BACKLIGHT:OFF''] s"

text \<open>
  What a tool call finds around it: the wall clock as \<^verbatim>\<open>datetime.now().strftime\<close> prints
  it (hours, minutes, seconds, date, day of the week), the printer \<^verbatim>\<open>{d:.1f}\<close>, and
  what the port holds when the tool itself reads a line after its command: nothing, a
  line (decoded and stripped), or bytes that \<^verbatim>\<open>decode\<close> refuses.
\<close>

datatype reply = No_reply | Reply string | Bad_bytes

record world =
  now_hours :: string
  now_minutes :: string
  now_seconds :: string
  now_date :: string
  now_day :: string
  fmt_1f :: "pyfloat \<Rightarrow> string"
  reply :: reply

definition lcd_show_current_time :: "world \<Rightarrow> state \<Rightarrow> outcome \<times> state" where
  "lcd_show_current_time w s =
     send_commands
       [''LCD:CLOCK:'' @ now_hours w @ '':'' @ now_minutes w @ '':'' @ now_seconds w @ '':''
          @ now_date w @ '':'' @ now_day w] s"

definition lcd_start_stopwatch :: "state \<Rightarrow> outcome \<times> state" where
  "lcd_start_stopwatch s = send_commands [''LCD:STOPWATCH:START''] s"

definition lcd_stop_stopwatch :: "state \<Rightarrow> outcome \<times> state" where
  "lcd_stop_stopwatch s = send_commands [''LCD:STOPWATCH:STOP''] s"

definition display_number_tool :: "int \<Rightarrow> state \<Rightarrow> outcome \<times> state" where
  "display_number_tool number s =
     (if number < - 999 \<or> number > 9999 then
        (ErrorReturn ''Error: Number must be between -999 and 9999'', s)
      else send_commands [''TM1637:NUM:'' @ show_int number] s)"

definition display_time :: "string \<Rightarrow> state \<Rightarrow> outcome \<times> state" where
  "display_time time_hhmm s =
     (if length time_hhmm \<noteq> 4 \<or> \<not> py_isdigit time_hhmm then
        (ErrorReturn (''Error: Time must be exactly 4 digits in HHMM format (example: ''
           @ [CHR 0x27] @ ''1430'' @ [CHR 0x27] @ '' for 2:30 PM)''), s)
      else send_commands [''TM1637:NUM:'' @ time_hhmm] s)"

definition display_current_time :: "world \<Rightarrow> state \<Rightarrow> outcome \<times> state" where
  "display_current_time w s =
     send_commands [''TM1637:CLOCK:'' @ now_hours w @ '':'' @ now_minutes w] s"

definition display_start_stopwatch :: "state \<Rightarrow> outcome \<times> state" where
  "display_start_stopwatch s = send_commands [''TM1637:STOPWATCH:START''] s"

definition display_stop_stopwatch :: "state \<Rightarrow> outcome \<times> state" where
  "display_stop_stopwatch s = send_commands [''TM1637:STOPWATCH:STOP''] s"

definition display_clear_tool :: "state \<Rightarrow> outcome \<times> state" where
  "display_clear_tool s = send_commands [''TM1637:CLEAR''] s"

definition display_brightness_tool :: "int \<Rightarrow> state \<Rightarrow> outcome \<times> state" where
  "display_brightness_tool level s =
     send_commands [''TM1637:BRIGHTNESS:'' @ show_int (max 0 (min 15 level))] s"

definition ultrasonic_start :: "state \<Rightarrow> outcome \<times> state" where
  "ultrasonic_start s = send_commands [''ULTRA:START''] s"

definition ultrasonic_stop :: "state \<Rightarrow> outcome \<times> state" where
  "ultrasonic_stop s = send_commands [''ULTRA:STOP''] s"

text \<open>
  The reading that \<^verbatim>\<open>ultrasonic_read\<close> and \<^verbatim>\<open>proximity_alert\<close> take from a reply that
  starts with \<^verbatim>\<open>ULTRA:\<close>; every exception of the parsing is caught by a bare
  \<^verbatim>\<open>except\<close>.
\<close>

definition ultra_reading :: "builtins \<Rightarrow> string \<Rightarrow> pyfloat option" where
  "ultra_reading b response =
     (if starts_with ''ULTRA:'' response then
        (case py_index (py_split CHR '':'' response) 1 of
           Inl e \<Rightarrow> None
         | Inr x \<Rightarrow> py_float b x)
      else None)"

definition ultrasonic_read :: "builtins \<Rightarrow> world \<Rightarrow> state \<Rightarrow> outcome \<times> state" where
  "ultrasonic_read b w s =
     (case get_arduino s of
        Inl e \<Rightarrow> (Raised e, s)
      | Inr s0 \<Rightarrow>
          (case send_command ''ULTRA:READ'' s0 of
             Inl e \<Rightarrow> (Raised e, s0)
           | Inr s1 \<Rightarrow>
               (case reply w of
                  No_reply \<Rightarrow> (ErrorReturn ''Error reading distance from ultrasonic sensor'', s1)
                | Bad_bytes \<Rightarrow> (Raised UnicodeDecodeError, s1)
                | Reply response \<Rightarrow>
                    (case ultra_reading b response of
                       None \<Rightarrow>
                         (ErrorReturn ''Error reading distance from ultrasonic sensor'', s1)
                     | Some d \<Rightarrow> (Success, s1)))))"

definition explain_display_capabilities :: "state \<Rightarrow> outcome \<times> state" where
  "explain_display_capabilities s = (Success, s)"

definition get_system_status :: "state \<Rightarrow> outcome \<times> state" where
  "get_system_status s = send_commands [''STATUS''] s"

text \<open>
  \<^verbatim>\<open>test_connection\<close> catches the exception of \<^verbatim>\<open>get_arduino\<close> and returns a message
  that embeds the port's own error text; the model keeps its fixed part.
\<close>

definition test_connection :: "state \<Rightarrow> outcome \<times> state" where
  "test_connection s =
     (case get_arduino s of
        Inl e \<Rightarrow> (ErrorReturn ''CONNECTION ERROR'', s)
      | Inr s1 \<Rightarrow> (Success, s1))"

definition all_off :: "state \<Rightarrow> outcome \<times> state" where
  "all_off s =
     send_commands [''LED:OFF'', ''BUZZER:OFF'', ''LCD:CLEAR'', ''TM1637:CLEAR'', ''ULTRA:STOP''] s"

definition welcome_message :: "string \<Rightarrow> state \<Rightarrow> outcome \<times> state" where
  "welcome_message name s =
     send_commands
       [''LCD:CLEAR'', ''LCD:LINE1:Welcome!'', ''LCD:LINE2:'' @ take 16 name, ''BUZZER:BEEP:200''] s"

definition proximity_alert :: "builtins \<Rightarrow> world \<Rightarrow> state \<Rightarrow> outcome \<times> state" where
  "proximity_alert b w s =
     (case get_arduino s of
        Inl e \<Rightarrow> (Raised e, s)
      | Inr s0 \<Rightarrow>
          (case send_command ''ULTRA:READ'' s0 of
             Inl e \<Rightarrow> (Raised e, s0)
           | Inr s1 \<Rightarrow>
               (case reply w of
                  Bad_bytes \<Rightarrow> (Raised UnicodeDecodeError, s1)
                | r \<Rightarrow>
                    (let dist =
                       (case r of
                          Reply response \<Rightarrow>
                            (case ultra_reading b response of
                               None \<Rightarrow> Finite (- 1)
                             | Some d \<Rightarrow> d)
                        | _ \<Rightarrow> Finite (- 1))
                     in if float_lt dist (Finite 0) then
                          (ErrorReturn ''ERROR: Could not read distance from ultrasonic sensor'',
                           s1)
                        else if float_lt dist (Finite 10) then
                          send_commands
                            [''BUZZER:ON'', ''LED:BLINK:100'', ''LCD:LINE1:WARNING!'',
                             ''LCD:LINE2:Too Close!''] s1
                        else if float_lt dist (Finite 30) then
                          send_commands
                            [''BUZZER:OFF'', ''LED:ON'', ''LCD:LINE1:Caution'',
                             ''LCD:LINE2:'' @ fmt_1f w dist @ '' cm''] s1
                        else
                          send_commands
                            [''LED:OFF'', ''BUZZER:OFF'', ''LCD:LINE1:Clear'',
                             ''LCD:LINE2:'' @ fmt_1f w dist @ '' cm''] s1))))"

definition countdown_display :: "int \<Rightarrow> state \<Rightarrow> outcome \<times> state" where
  "countdown_display seconds s =
     (if seconds < 0 \<or> seconds > 5940 then
        (ErrorReturn ''Error: Seconds must be between 0 and 5940 (99 minutes max)'', s)
      else send_commands [''TM1637:NUM:'' @ pad2 (seconds div 60) @ pad2 (seconds mod 60)] s)"

definition display_info :: "string \<Rightarrow> string \<Rightarrow> int option \<Rightarrow> state \<Rightarrow> outcome \<times> state" where
  "display_info title val show_number s =
     send_commands
       ([''LCD:LINE1:'' @ take 16 title, ''LCD:LINE2:'' @ take 16 val] @
        (case show_number of None \<Rightarrow> [] | Some n \<Rightarrow> [''TM1637:NUM:'' @ show_int n])) s"

definition celebration :: "state \<Rightarrow> outcome \<times> state" where
  "celebration s =
     send_commands
       [''LCD:LINE1:Celebration!'', ''LCD:LINE2:Hooray!'', ''LED:BLINK:200'',
        ''BUZZER:BEEP:150'', ''BUZZER:BEEP:150'', ''BUZZER:BEEP:150'', ''TM1637:NUM:8888''] s"

text \<open>\<^verbatim>\<open>get_current_status\<close> only reads the state to build its report.\<close>

definition get_current_status :: "state \<Rightarrow> outcome \<times> state" where
  "get_current_status s = (Success, s)"

text \<open>Every tool of the server, with the arguments of a call.\<close>

datatype tool =
    Led_on | Led_off | Led_blink int | Led_toggle
  | Buzzer_on | Buzzer_off | Buzzer_beep int
  | Lcd_write_line1 string | Lcd_write_line2 string | Lcd_clear
  | Lcd_backlight_on | Lcd_backlight_off | Lcd_display_message string string
  | Lcd_show_current_time | Lcd_start_stopwatch | Lcd_stop_stopwatch
  | Display_number int | Display_time string | Display_current_time
  | Display_start_stopwatch | Display_stop_stopwatch | Display_clear
  | Display_brightness int | Display_timer int int
  | Ultrasonic_start | Ultrasonic_stop | Ultrasonic_read
  | Explain_display_capabilities | Get_system_status | Test_connection
  | All_off | Welcome_message string | Proximity_alert
  | Countdown_display int | Display_info string string "int option" | Celebration
  | When_timer_finishes string "string option"
  | When_time_equals string string "string option"
  | When_distance_less_than pyfloat string "string option"
  | Show_live_ultrasonic_on_lcd | Get_current_status | Clear_all_pending_actions

fun call_tool :: "builtins \<Rightarrow> world \<Rightarrow> tool \<Rightarrow> state \<Rightarrow> outcome \<times> state" where
  "call_tool b w Led_on s = led_on s"
| "call_tool b w Led_off s = led_off s"
| "call_tool b w (Led_blink interval_ms) s = led_blink interval_ms s"
| "call_tool b w Led_toggle s = led_toggle s"
| "call_tool b w Buzzer_on s = buzzer_on s"
| "call_tool b w Buzzer_off s = buzzer_off s"
| "call_tool b w (Buzzer_beep duration_ms) s = buzzer_beep_tool duration_ms s"
| "call_tool b w (Lcd_write_line1 text) s = lcd_write_line1 text s"
| "call_tool b w (Lcd_write_line2 text) s = lcd_write_line2 text s"
| "call_tool b w Lcd_clear s = lcd_clear s"
| "call_tool b w Lcd_backlight_on s = lcd_backlight_on s"
| "call_tool b w Lcd_backlight_off s = lcd_backlight_off s"
| "call_tool b w (Lcd_display_message line1 line2) s = lcd_display_message line1 line2 s"
| "call_tool b w Lcd_show_current_time s = lcd_show_current_time w s"
| "call_tool b w Lcd_start_stopwatch s = lcd_start_stopwatch s"
| "call_tool b w Lcd_stop_stopwatch s = lcd_stop_stopwatch s"
| "call_tool b w (Display_number number) s = display_number_tool number s"
| "call_tool b w (Display_time time_hhmm) s = display_time time_hhmm s"
| "call_tool b w Display_current_time s = display_current_time w s"
| "call_tool b w Display_start_stopwatch s = display_start_stopwatch s"
| "call_tool b w Display_stop_stopwatch s = display_stop_stopwatch s"
| "call_tool b w Display_clear s = display_clear_tool s"
| "call_tool b w (Display_brightness level) s = display_brightness_tool level s"
| "call_tool b w (Display_timer minutes seconds) s = display_timer minutes seconds s"
| "call_tool b w Ultrasonic_start s = ultrasonic_start s"
| "call_tool b w Ultrasonic_stop s = ultrasonic_stop s"
| "call_tool b w Ultrasonic_read s = ultrasonic_read b w s"
| "call_tool b w Explain_display_capabilities s = explain_display_capabilities s"
| "call_tool b w Get_system_status s = get_system_status s"
| "call_tool b w Test_connection s = test_connection s"
| "call_tool b w All_off s = all_off s"
| "call_tool b w (Welcome_message name) s = welcome_message name s"
| "call_tool b w Proximity_alert s = proximity_alert b w s"
| "call_tool b w (Countdown_display seconds) s = countdown_display seconds s"
| "call_tool b w (Display_info title val show_number) s = display_info title val show_number s"
| "call_tool b w Celebration s = celebration s"
| "call_tool b w (When_timer_finishes then_action action_params) s =
     when_timer_finishes then_action action_params s"
| "call_tool b w (When_time_equals target_time then_action action_params) s =
     when_time_equals target_time then_action action_params s"
| "call_tool b w (When_distance_less_than distance_cm then_action action_params) s =
     when_distance_less_than distance_cm then_action action_params s"
| "call_tool b w Show_live_ultrasonic_on_lcd s = show_live_ultrasonic_on_lcd s"
| "call_tool b w Get_current_status s = get_current_status s"
| "call_tool b w Clear_all_pending_actions s = (Success, snd (clear_all_pending_actions s))"

section \<open>The console controller: display routines on the numeric display\<close>

text \<open>
  \<^verbatim>\<open>ArduinoController\<close> of master_control.py, with the fields the numeric display's
  routines read and write. \<open>arduino\<close> says that a port is attached; \<open>written\<close> lists
  the commands \<^verbatim>\<open>send_command\<close> wrote to it, oldest first. Names that the server's model
  already uses carry the suffix \<open>_mc\<close>.
\<close>

record controller =
  arduino :: bool
  running :: bool
  clock_active :: bool
  timer_active_mc :: bool
  written :: "string list"

definition send_command_mc :: "string \<Rightarrow> controller \<Rightarrow> controller" where
  "send_command_mc command c = (if arduino c then c\<lparr>written := written c @ [command]\<rparr> else c)"

definition buzzer_beep :: "int \<Rightarrow> controller \<Rightarrow> controller" where
  "buzzer_beep duration c = send_command_mc (''BUZZER:BEEP:'' @ show_int duration) c"

definition display_number :: "int \<Rightarrow> controller \<Rightarrow> controller" where
  "display_number number c = send_command_mc (''TM1637:NUM:'' @ show_int number) c"

definition display_clear :: "controller \<Rightarrow> controller" where
  "display_clear c = send_command_mc ''TM1637:CLEAR'' c"

definition display_brightness :: "int \<Rightarrow> controller \<Rightarrow> controller" where
  "display_brightness level c =
     send_command_mc (''TM1637:BRIGHTNESS:'' @ show_int (max 0 (min 15 level))) c"

definition stop_clock :: "controller \<Rightarrow> controller" where
  "stop_clock c = c\<lparr>clock_active := False\<rparr>"

definition stop_timer :: "controller \<Rightarrow> controller" where
  "stop_timer c = c\<lparr>timer_active_mc := False\<rparr>"

text \<open>
  A display routine is a coroutine; between two \<^verbatim>\<open>await\<close>s it runs without interruption.
  A value of \<open>coroutine\<close> is a point where one is suspended: created and not yet started,
  asleep in \<^verbatim>\<open>asyncio.sleep(1)\<close> at the end of a loop body (the countdown with the value
  of \<^verbatim>\<open>total_seconds\<close>), asleep in \<^verbatim>\<open>asyncio.sleep(0.5)\<close> after a beep (with the number of
  beeps still to come), or finished.
\<close>

datatype coroutine =
    Clock_created
  | Clock_sleeping
  | Countdown_created int int
  | Countdown_sleeping int
  | Countdown_beeping nat
  | Finished

text \<open>
  The loops of \<^verbatim>\<open>display_clock\<close> and \<^verbatim>\<open>display_countdown\<close> from the test of the
  \<^verbatim>\<open>while\<close> to the next \<^verbatim>\<open>await\<close>. \<open>now\<close> is \<^verbatim>\<open>datetime.now().strftime("%H%M")\<close>.
\<close>

definition clock_loop :: "string \<Rightarrow> controller \<Rightarrow> coroutine \<times> controller" where
  "clock_loop now c =
     (if clock_active c \<and> running c
      then (Clock_sleeping, send_command_mc (''TM1637:NUM:'' @ now) c)
      else (Finished, c))"

definition countdown_loop :: "int \<Rightarrow> controller \<Rightarrow> coroutine \<times> controller" where
  "countdown_loop total_seconds c =
     (if total_seconds \<ge> 0 \<and> timer_active_mc c \<and> running c then
        (let c1 = send_command_mc
                    (''TM1637:NUM:'' @ pad2 (total_seconds div 60) @ pad2 (total_seconds mod 60)) c
         in if total_seconds = 0 then (Countdown_beeping 2, buzzer_beep 300 c1)
            else (Countdown_sleeping (total_seconds - 1), c1))
      else (Finished, c\<lparr>timer_active_mc := False\<rparr>))"

text \<open>The event loop resumes a coroutine: it runs to its next \<^verbatim>\<open>await\<close> or to its end.\<close>

definition resume :: "string \<Rightarrow> coroutine \<Rightarrow> controller \<Rightarrow> coroutine \<times> controller" where
  "resume now co c =
     (case co of
        Clock_created \<Rightarrow> clock_loop now (c\<lparr>clock_active := True\<rparr>)
      | Clock_sleeping \<Rightarrow> clock_loop now c
      | Countdown_created minutes seconds \<Rightarrow>
          countdown_loop (minutes * 60 + seconds) (c\<lparr>timer_active_mc := True\<rparr>)
      | Countdown_sleeping total_seconds \<Rightarrow> countdown_loop total_seconds c
      | Countdown_beeping k \<Rightarrow>
          (if k > 0 then (Countdown_beeping (k - 1), buzzer_beep 300 c)
           else (Finished, c\<lparr>timer_active_mc := False\<rparr>))
      | Finished \<Rightarrow> (Finished, c))"

text \<open>
  The controller together with the tasks that \<^verbatim>\<open>asyncio.create_task\<close> has made, in the
  order of their creation.
\<close>

record system =
  ctl :: controller
  tasks :: "coroutine list"

definition create_task :: "coroutine \<Rightarrow> system \<Rightarrow> system" where
  "create_task co sys = sys\<lparr>tasks := tasks sys @ [co]\<rparr>"

text \<open>
  The branch of \<^verbatim>\<open>process_command\<close> for the device \<^verbatim>\<open>display\<close>; \<open>parts\<close> are the words
  of the command line. An exception inside the branch is caught by \<^verbatim>\<open>process_command\<close>,
  which prints it: what the branch did before stays done.
\<close>

definition process_display_command :: "string list \<Rightarrow> system \<Rightarrow> system" where
  "process_display_command parts sys =
     (if length parts < 2 then sys
      else if parts ! 1 = ''clear'' then sys\<lparr>ctl := display_clear (ctl sys)\<rparr>
      else if parts ! 1 = ''clock'' then
        create_task Clock_created (sys\<lparr>ctl := stop_timer (ctl sys)\<rparr>)
      else if starts_with ''timer:'' (parts ! 1) then
        (let sys1 = sys\<lparr>ctl := stop_clock (ctl sys)\<rparr> in
         case py_index (py_split_max CHR '':'' 1 (parts ! 1)) 1 of
           Inl e \<Rightarrow> sys1
         | Inr time_part \<Rightarrow>
             (let xs = py_split CHR '':'' time_part in
              if length xs = 2 then
                (case py_int (xs ! 0) of
                   None \<Rightarrow> sys1
                 | Some mins \<Rightarrow>
                     (case py_int (xs ! 1) of
                        None \<Rightarrow> sys1
                      | Some secs \<Rightarrow> create_task (Countdown_created mins secs) sys1))
              else sys1))
      else if parts ! 1 = ''stop'' then sys\<lparr>ctl := stop_timer (stop_clock (ctl sys))\<rparr>
      else if parts ! 1 = ''brightness'' then
        (if length parts > 2 then
           (case py_int (parts ! 2) of
              None \<Rightarrow> sys
            | Some level \<Rightarrow> sys\<lparr>ctl := display_brightness level (ctl sys)\<rparr>)
         else sys\<lparr>ctl := display_brightness 15 (ctl sys)\<rparr>)
      else
        (case py_int (parts ! 1) of
           None \<Rightarrow> sys
         | Some number \<Rightarrow> sys\<lparr>ctl := display_number number (ctl sys)\<rparr>))"

text \<open>
  What happens to the system: the user enters a \<^verbatim>\<open>display\<close> command, or the event loop
  resumes the task with a given index (its sleep is over, or it has just been created).
\<close>

datatype event = Display_command "string list" | Wake nat string

definition step :: "event \<Rightarrow> system \<Rightarrow> system" where
  "step ev sys =
     (case ev of
        Display_command parts \<Rightarrow> process_display_command parts sys
      | Wake i now \<Rightarrow>
          (if i < length (tasks sys) then
             (let r = resume now (tasks sys ! i) (ctl sys)
              in sys\<lparr>ctl := snd r, tasks := (tasks sys)[i := fst r]\<rparr>)
           else sys))"

fun run :: "event list \<Rightarrow> system \<Rightarrow> system" where
  "run [] sys = sys"
| "run (ev # evs) sys = run evs (step ev sys)"

text \<open>The tasks that have not finished.\<close>

definition live :: "system \<Rightarrow> coroutine list" where
  "live sys = filter (\<lambda>co. co \<noteq> Finished) (tasks sys)"

text \<open>
  A countdown that runs alone: the console after \<^verbatim>\<open>display timer:M:S\<close> on a connected,
  running controller with no other task.
\<close>

definition idle :: controller where
  "idle = \<lparr>arduino = True, running = True, clock_active = False, timer_active_mc = False,
            written = []\<rparr>"

definition countdown_alone :: "int \<Rightarrow> int \<Rightarrow> nat \<Rightarrow> system" where
  "countdown_alone minutes seconds n =
     run (replicate n (Wake 0 []))
       \<lparr>ctl = idle, tasks = [Countdown_created minutes seconds]\<rparr>"

section \<open>Notions used to state the properties\<close>

text \<open>
  The specification's view of a status line: the report it carries. A line that the
  monitor cannot parse carries none.
\<close>

datatype report =
    TimerRemaining int
  | TimerFinished
  | ClockReport string
  | DistanceReport pyfloat
  | Ignored

definition field :: "nat \<Rightarrow> string \<Rightarrow> string" where
  "field n line = takeWhile (\<lambda>c. c \<noteq> CHR '':'') (drop n line)"

definition classify :: "builtins \<Rightarrow> string \<Rightarrow> report" where
  "classify b line =
     (if starts_with ''TIMER:REMAINING:'' line then
        (case py_int (field 16 line) of None \<Rightarrow> Ignored | Some n \<Rightarrow> TimerRemaining n)
      else if starts_with ''COUNTDOWN:FINISHED'' line then TimerFinished
      else if starts_with ''CLOCK:LCD:'' line then ClockReport (drop 10 line)
      else if starts_with ''DISTANCE:'' line then
        (case py_float b (field 9 line) of None \<Rightarrow> Ignored | Some d \<Rightarrow> DistanceReport d)
      else Ignored)"

text \<open>The specification's matching of a pending rule against a report.\<close>

fun matches :: "report \<Rightarrow> action \<Rightarrow> bool" where
  "matches TimerFinished a = (trigger a = Timer_zero)"
| "matches (ClockReport v) a = (trigger a = Time_equals v)"
| "matches (DistanceReport cm) a = below cm a"
| "matches (TimerRemaining n) a = False"
| "matches Ignored a = False"

text \<open>The specification's update of the telemetry by a report received at \<open>now\<close>.\<close>

fun update_telemetry :: "real \<Rightarrow> report \<Rightarrow> telemetry \<Rightarrow> telemetry" where
  "update_telemetry now (TimerRemaining n) t =
     t\<lparr>timer_remaining := n, timer_active := True, last_update := now\<rparr>"
| "update_telemetry now TimerFinished t =
     t\<lparr>timer_remaining := 0, timer_active := False, last_update := now\<rparr>"
| "update_telemetry now (ClockReport v) t = t\<lparr>clock_time := Some v, last_update := now\<rparr>"
| "update_telemetry now (DistanceReport cm) t = t\<lparr>distance := cm, last_update := now\<rparr>"
| "update_telemetry now Ignored t = t"

text \<open>The commands that executing an action writes to an open connection.\<close>

definition action_commands :: "action \<Rightarrow> string list" where
  "action_commands a =
     (if action_type a = ''buzzer_beep'' then [''BUZZER:BEEP:'' @ show_int (duration_of (params a))]
      else if action_type a = ''start_timer'' then
        [''TM1637:COUNTDOWN:'' @ show_int (minutes_of (params a) * 60 + seconds_of (params a))]
      else if action_type a = ''led_blink'' then [''LED:BLINK:'' @ show_int (interval_of (params a))]
      else if action_type a = ''display_message'' then
        [''LCD:LINE1:'' @ line1_of (params a), ''LCD:LINE2:'' @ line2_of (params a)]
      else if action_type a = ''custom_command'' then [[]]
      else [])"

text \<open>
  The commands that a received line makes the monitor write to an open connection when
  \<open>ps\<close> are the pending actions: the echoes of a distance, then the matched actions.
\<close>

definition line_commands :: "builtins \<Rightarrow> string \<Rightarrow> action list \<Rightarrow> string list" where
  "line_commands b line ps =
     (case classify b line of
        DistanceReport d \<Rightarrow>
          replicate (length (filter (\<lambda>a. trigger a = Distance_update) ps))
            (''LCD:LINE2:'' @ fmt_2f b d @ '' cm       '')
      | _ \<Rightarrow> [])
     @ concat (map action_commands (filter (matches (classify b line)) ps))"

text \<open>
  The commands that a sequence of received lines makes the monitor write to an open
  connection: those of each line in turn, the rules that a line matched being gone for
  the lines after it.
\<close>

fun run_commands :: "builtins \<Rightarrow> (real \<times> string) list \<Rightarrow> action list \<Rightarrow> string list" where
  "run_commands b [] ps = []"
| "run_commands b (inp # inps) ps =
     line_commands b (snd inp) ps @
     run_commands b inps (filter (\<lambda>a. \<not> matches (classify b (snd inp)) a) ps)"

text \<open>The actions executed between an earlier state and a later one.\<close>

definition fired_during :: "state \<Rightarrow> state \<Rightarrow> action list" where
  "fired_during s s' = drop (length (executed s)) (executed s')"

text \<open>The commands sent between an earlier state and a later one.\<close>

definition sent_during :: "state \<Rightarrow> state \<Rightarrow> string list" where
  "sent_during s s' = drop (length (sent s)) (sent s')"

text \<open>A line reports a distance below the threshold; a line reports the clock value.\<close>

definition reports_below :: "builtins \<Rightarrow> pyfloat \<Rightarrow> string \<Rightarrow> bool" where
  "reports_below b t line =
     (case classify b line of DistanceReport cm \<Rightarrow> float_lt cm t | _ \<Rightarrow> False)"

definition reports_clock :: "builtins \<Rightarrow> string \<Rightarrow> string \<Rightarrow> bool" where
  "reports_clock b target line = (classify b line = ClockReport target)"

text \<open>A state of the server right after start-up, with the port open.\<close>

definition fresh :: state where
  "fresh = \<lparr>arduino_state = \<lparr>timer_remaining = 0, timer_active = False, clock_time = None,
               distance = Finite 0, last_update = 0\<rparr>,
             pending_actions = [], conn_open = True, port_ok = True, sent = [], executed = []\<rparr>"

text \<open>
  Builtins for the examples: the parser knows the numerals \<^verbatim>\<open>5\<close> and \<^verbatim>\<open>20\<close>, the
  printer prints nothing.
\<close>

definition example_builtins :: builtins where
  "example_builtins =
     \<lparr>py_float = (\<lambda>x. if x = ''5'' then Some (Finite 5)
                       else if x = ''20'' then Some (Finite 20) else None),
      fmt_2f = (\<lambda>d. [])\<rparr>"

text \<open>
  The fresh server after \<^verbatim>\<open>when_distance_less_than(10, "buzzer_beep", "500")\<close>, after
  \<^verbatim>\<open>when_time_equals("07:15:00", "buzzer_beep", "2000")\<close> and after
  \<^verbatim>\<open>when_timer_finishes("buzzer_beep", "500")\<close>.
\<close>

definition armed_distance :: state where
  "armed_distance = snd (when_distance_less_than (Finite 10) ''buzzer_beep'' (Some ''500'') fresh)"

definition armed_clock :: state where
  "armed_clock = snd (when_time_equals ''07:15:00'' ''buzzer_beep'' (Some ''2000'') fresh)"

definition armed_timer :: state where
  "armed_timer = snd (when_timer_finishes ''buzzer_beep'' (Some ''500'') fresh)"



text \<open>The command that shows a remaining time of \<open>k\<close> seconds on the numeric display.\<close>

definition remaining_display :: "int \<Rightarrow> string" where
  "remaining_display k = ''TM1637:NUM:'' @ pad2 (k div 60) @ pad2 (k mod 60)"

text \<open>
  The console session in which \<^verbatim>\<open>display timer:0:5\<close> is entered half a second after
  \<^verbatim>\<open>display timer:0:3\<close>: the first countdown starts and writes, the second command is
  processed, the second countdown starts and writes, and the first one wakes from its
  sleep of one second.
\<close>

definition two_timers :: "event list" where
  "two_timers =
     [Display_command [''display'', ''timer:0:3''], Wake 0 [],
      Display_command [''display'', ''timer:0:5''], Wake 1 [], Wake 0 []]"

section \<open>The monitor, line by line\<close>

lemma send_command_open:
  "conn_open s \<Longrightarrow> send_command c s = Inr (s\<lparr>sent := sent s @ [c]\<rparr>)"
  by (simp add: send_command_def get_arduino_def)

lemma send_command_cases:
  "send_command c s = Inl ConnectionFailed \<or>
   (\<exists>s1. send_command c s = Inr s1 \<and> conn_open s1 \<and> arduino_state s1 = arduino_state s \<and>
      pending_actions s1 = pending_actions s \<and> executed s1 = executed s \<and>
      port_ok s1 = port_ok s \<and> sent s1 = sent s @ [c])"
  by (simp add: send_command_def get_arduino_def)

lemma execute_action_frame:
  "pending_actions (execute_action a s) = pending_actions s"
  "executed (execute_action a s) = executed s @ [a]"
  "arduino_state (execute_action a s) = arduino_state s"
  by (simp_all add: execute_action_def Let_def swallow_def send_command_def get_arduino_def
        split: sum.splits)

lemma execute_action_open:
  "conn_open s \<Longrightarrow> conn_open (execute_action a s)"
  "conn_open s \<Longrightarrow> sent (execute_action a s) = sent s @ action_commands a"
  by (simp_all add: execute_action_def Let_def swallow_def send_command_open action_commands_def)

lemma filter_remove1_first:
  "filter m p = a # rest \<Longrightarrow>
     a \<in> set p \<and> filter m (remove1 a p) = rest \<and>
     filter (\<lambda>x. \<not> m x) (remove1 a p) = filter (\<lambda>x. \<not> m x) p"
proof (induction p)
  case Nil
  then show ?case by simp
next
  case (Cons x xs)
  show ?case
  proof (cases "m x")
    case True
    with Cons.prems show ?thesis by simp
  next
    case False
    from Cons.prems have "m a" by (metis filter_eq_ConsD)
    with False have "x \<noteq> a" by auto
    with False Cons show ?thesis by simp
  qed
qed

lemma fire_loop_char:
  "filter m (pending_actions s) = filter m as \<Longrightarrow>
   fst (fire_loop m as s) = None \<and>
   pending_actions (snd (fire_loop m as s)) = filter (\<lambda>x. \<not> m x) (pending_actions s) \<and>
   executed (snd (fire_loop m as s)) = executed s @ filter m as \<and>
   arduino_state (snd (fire_loop m as s)) = arduino_state s \<and>
   (conn_open s \<longrightarrow> conn_open (snd (fire_loop m as s)) \<and>
      sent (snd (fire_loop m as s)) = sent s @ concat (map action_commands (filter m as)))"
proof (induction as arbitrary: s)
  case Nil
  then have "filter m (pending_actions s) = []" by simp
  then have "filter (\<lambda>x. \<not> m x) (pending_actions s) = pending_actions s"
    by (induction "pending_actions s") (auto simp: filter_empty_conv filter_id_conv)
  then show ?case by simp
next
  case (Cons a as)
  show ?case
  proof (cases "m a")
    case False
    with Cons.prems have "filter m (pending_actions s) = filter m as" by simp
    from Cons.IH[OF this] False show ?thesis by simp
  next
    case True
    with Cons.prems have f: "filter m (pending_actions s) = a # filter m as" by simp
    note r = filter_remove1_first[OF f]
    let ?s1 = "execute_action a s"
    let ?s2 = "?s1\<lparr>pending_actions := remove1 a (pending_actions ?s1)\<rparr>"
    have p1: "pending_actions ?s1 = pending_actions s" by (rule execute_action_frame)
    have pre: "filter m (pending_actions ?s2) = filter m as" using r p1 by simp
    have step: "fire_loop m (a # as) s = fire_loop m as ?s2"
      using True r p1 by (simp add: Let_def)
    from Cons.IH[OF pre] show ?thesis
      unfolding step using True r p1
      by (simp add: execute_action_frame execute_action_open)
  qed
qed

lemma echo_loop_open:
  "conn_open s \<Longrightarrow>
   fst (echo_loop cmd as s) = None \<and>
   pending_actions (snd (echo_loop cmd as s)) = pending_actions s \<and>
   executed (snd (echo_loop cmd as s)) = executed s \<and>
   arduino_state (snd (echo_loop cmd as s)) = arduino_state s \<and>
   conn_open (snd (echo_loop cmd as s)) \<and>
   sent (snd (echo_loop cmd as s)) =
     sent s @ replicate (length (filter (\<lambda>a. trigger a = Distance_update) as)) cmd"
proof (induction as arbitrary: s)
  case Nil
  then show ?case by simp
next
  case (Cons a as)
  show ?case
  proof (cases "trigger a = Distance_update")
    case False
    with Cons show ?thesis by simp
  next
    case True
    let ?s1 = "s\<lparr>sent := sent s @ [cmd]\<rparr>"
    have o: "conn_open ?s1" using Cons.prems by simp
    from Cons.IH[OF o] True Cons.prems show ?thesis
      by (simp add: send_command_open replicate_append_same)
  qed
qed


lemma py_split_nonempty: "py_split c s \<noteq> []"
  by (induction s) (auto split: list.splits)

lemma py_split_hd: "hd (py_split c s) = takeWhile (\<lambda>x. x \<noteq> c) s"
  by (induction s) (auto split: list.splits simp: py_split_nonempty)

lemma py_split_prefix:
  "c \<notin> set p \<Longrightarrow> py_split c (p @ c # rest) = p # py_split c rest"
  by (induction p) (auto split: list.splits simp: py_split_nonempty)

lemma line_prefix:
  "starts_with p line \<Longrightarrow> line = p @ drop (length p) line"
  unfolding starts_with_def by (metis append_take_drop_id)

lemma py_index_split_distance:
  assumes "starts_with ''DISTANCE:'' line"
  shows "py_index (py_split CHR '':'' line) (Suc 0) = Inr (field 9 line)"
proof -
  from line_prefix[OF assms] have l: "line = ''DISTANCE'' @ CHR '':'' # drop 9 line" by (simp add: eval_nat_numeral)
  have "py_split CHR '':'' line = ''DISTANCE'' # py_split CHR '':'' (drop 9 line)"
    by (subst l, rule py_split_prefix) simp
  then show ?thesis
    using py_split_nonempty[of "CHR '':''" "drop 9 line"] py_split_hd[of "CHR '':''" "drop 9 line"]
    by (cases "py_split CHR '':'' (drop 9 line)") (auto simp: py_index_def field_def)
qed

lemma py_index_split_timer:
  assumes "starts_with ''TIMER:REMAINING:'' line"
  shows "py_index (py_split CHR '':'' line) 2 = Inr (field 16 line)"
proof -
  from line_prefix[OF assms]
  have l: "line = ''TIMER'' @ CHR '':'' # (''REMAINING'' @ CHR '':'' # drop 16 line)"
    by (simp add: eval_nat_numeral)
  have "py_split CHR '':'' line =
        ''TIMER'' # py_split CHR '':'' (''REMAINING'' @ CHR '':'' # drop 16 line)"
    by (subst l, rule py_split_prefix) simp
  also have "py_split CHR '':'' (''REMAINING'' @ CHR '':'' # drop 16 line) =
        ''REMAINING'' # py_split CHR '':'' (drop 16 line)"
    by (rule py_split_prefix) simp
  finally show ?thesis
    using py_split_nonempty[of "CHR '':''" "drop 16 line"] py_split_hd[of "CHR '':''" "drop 16 line"]
    by (cases "py_split CHR '':'' (drop 16 line)") (auto simp: py_index_def field_def)
qed

lemma py_split_max_prefix:
  "c \<notin> set p \<Longrightarrow> py_split_max c (Suc n) (p @ c # rest) = p # py_split_max c n rest"
proof (induction p)
  case Nil
  then show ?case by simp
next
  case (Cons x xs)
  then show ?case by (cases "py_split_max c (Suc n) (xs @ c # rest)") auto
qed

lemma py_index_split_clock:
  assumes "starts_with ''CLOCK:LCD:'' line"
  shows "py_index (py_split_max CHR '':'' 2 line) 2 = Inr (drop 10 line)"
proof -
  from line_prefix[OF assms]
  have l: "line = ''CLOCK'' @ CHR '':'' # (''LCD'' @ CHR '':'' # drop 10 line)"
    by (simp add: eval_nat_numeral)
  have "py_split_max CHR '':'' (Suc (Suc 0)) line =
        ''CLOCK'' # py_split_max CHR '':'' (Suc 0) (''LCD'' @ CHR '':'' # drop 10 line)"
    by (subst l, rule py_split_max_prefix) simp
  also have "py_split_max CHR '':'' (Suc 0) (''LCD'' @ CHR '':'' # drop 10 line) =
        ''LCD'' # py_split_max CHR '':'' 0 (drop 10 line)"
    by (rule py_split_max_prefix) simp
  finally show ?thesis by (simp add: py_index_def numeral_2_eq_2)
qed


lemma fire_loop_pending:
  "pending_actions (snd (fire_loop m (pending_actions s) s)) =
     filter (\<lambda>x. \<not> m x) (pending_actions s)"
  "executed (snd (fire_loop m (pending_actions s) s)) = executed s @ filter m (pending_actions s)"
  "arduino_state (snd (fire_loop m (pending_actions s) s)) = arduino_state s"
  "conn_open s \<Longrightarrow> conn_open (snd (fire_loop m (pending_actions s) s))"
  "conn_open s \<Longrightarrow> sent (snd (fire_loop m (pending_actions s) s)) =
     sent s @ concat (map action_commands (filter m (pending_actions s)))"
  using fire_loop_char[of m s "pending_actions s"] by simp_all

lemma monitor_line_char:
  assumes "conn_open s"
  shows "pending_actions (snd (monitor_line b now line s)) =
           filter (\<lambda>a. \<not> matches (classify b line) a) (pending_actions s)"
    and "executed (snd (monitor_line b now line s)) =
           executed s @ filter (matches (classify b line)) (pending_actions s)"
    and "arduino_state (snd (monitor_line b now line s)) =
           update_telemetry now (classify b line) (arduino_state s)"
    and "conn_open (snd (monitor_line b now line s))"
    and "sent (snd (monitor_line b now line s)) =
           sent s @ line_commands b line (pending_actions s)"
proof -
  let ?P = "\<lambda>s'. pending_actions s' =
           filter (\<lambda>a. \<not> matches (classify b line) a) (pending_actions s) \<and>
     executed s' = executed s @ filter (matches (classify b line)) (pending_actions s) \<and>
     arduino_state s' = update_telemetry now (classify b line) (arduino_state s) \<and>
     conn_open s' \<and> sent s' = sent s @ line_commands b line (pending_actions s)"
  have "?P (snd (monitor_line b now line s))"
  proof (cases "starts_with ''TIMER:REMAINING:'' line")
    case True
    then show ?thesis using assms
      by (simp add: monitor_line_def classify_def line_commands_def py_index_split_timer
            split: option.splits)
  next
    case nt: False
    show ?thesis
    proof (cases "starts_with ''COUNTDOWN:FINISHED'' line")
      case True
      let ?s1 = "s\<lparr>arduino_state := (arduino_state s)
                     \<lparr>timer_remaining := 0, timer_active := False, last_update := now\<rparr>\<rparr>"
      have c: "classify b line = TimerFinished" using nt True by (simp add: classify_def)
      have m: "monitor_line b now line s =
               fire_loop (\<lambda>a. trigger a = Timer_zero) (pending_actions ?s1) ?s1"
        using nt True by (simp add: monitor_line_def Let_def)
      have o: "conn_open ?s1" using assms by simp
      have mm: "matches TimerFinished = (\<lambda>a. trigger a = Timer_zero)" by (rule ext) simp
      show ?thesis unfolding m c
        using fire_loop_pending(1-3)[of "\<lambda>a. trigger a = Timer_zero" ?s1]
              fire_loop_pending(4,5)[OF o, of "\<lambda>a. trigger a = Timer_zero"]
        by (simp add: line_commands_def c mm)
    next
      case nf: False
      show ?thesis
      proof (cases "starts_with ''CLOCK:LCD:'' line")
        case True
        let ?v = "drop 10 line"
        let ?s1 = "s\<lparr>arduino_state := (arduino_state s)
                        \<lparr>clock_time := Some ?v, last_update := now\<rparr>\<rparr>"
        have c: "classify b line = ClockReport ?v" using nt nf True by (simp add: classify_def)
        have m: "monitor_line b now line s =
                 fire_loop (\<lambda>a. trigger a = Time_equals ?v) (pending_actions ?s1) ?s1"
          using nt nf True by (simp add: monitor_line_def Let_def py_index_split_clock)
        have o: "conn_open ?s1" using assms by simp
        have mm: "matches (ClockReport ?v) = (\<lambda>a. trigger a = Time_equals ?v)"
          by (rule ext) simp
        show ?thesis unfolding m c
          using fire_loop_pending(1-3)[of "\<lambda>a. trigger a = Time_equals ?v" ?s1]
                fire_loop_pending(4,5)[OF o, of "\<lambda>a. trigger a = Time_equals ?v"]
          by (simp add: line_commands_def c mm)
      next
        case nc: False
        show ?thesis
        proof (cases "starts_with ''DISTANCE:'' line")
          case False
          then show ?thesis using nt nf nc assms
            by (simp add: monitor_line_def classify_def line_commands_def)
        next
          case True
          show ?thesis
          proof (cases "py_float b (field 9 line)")
            case None
            then show ?thesis using nt nf nc True assms
              by (simp add: monitor_line_def classify_def line_commands_def
                    py_index_split_distance)
          next
            case (Some d)
            let ?s1 = "s\<lparr>arduino_state := (arduino_state s)
                             \<lparr>distance := d, last_update := now\<rparr>\<rparr>"
            let ?cmd = "''LCD:LINE2:'' @ fmt_2f b d @ '' cm       ''"
            have c: "classify b line = DistanceReport d"
              using nt nf nc True Some by (simp add: classify_def)
            have o: "conn_open ?s1" using assms by simp
            note e = echo_loop_open[OF o, of ?cmd "pending_actions ?s1"]
            obtain s2 where el: "echo_loop ?cmd (pending_actions ?s1) ?s1 = (None, s2)"
              using e by (cases "echo_loop ?cmd (pending_actions ?s1) ?s1") auto
            have s2: "pending_actions s2 = pending_actions s" "executed s2 = executed s"
              "arduino_state s2 = (arduino_state s)\<lparr>distance := d, last_update := now\<rparr>"
              "conn_open s2"
              "sent s2 = sent s @ replicate
                 (length (filter (\<lambda>a. trigger a = Distance_update) (pending_actions s))) ?cmd"
              using e el by simp_all
            have m: "monitor_line b now line s = fire_loop (below d) (pending_actions s2) s2"
              using nt nf nc True Some el
              by (simp add: monitor_line_def Let_def py_index_split_distance)
            have mm: "matches (DistanceReport d) = below d" by (rule ext) simp
            show ?thesis unfolding m c
              using fire_loop_pending(1-3)[of "below d" s2]
                    fire_loop_pending(4,5)[OF s2(4), of "below d"] s2
              by (simp add: line_commands_def c mm)
          qed
        qed
      qed
    qed
  qed
  then show "pending_actions (snd (monitor_line b now line s)) =
           filter (\<lambda>a. \<not> matches (classify b line) a) (pending_actions s)"
    and "executed (snd (monitor_line b now line s)) =
           executed s @ filter (matches (classify b line)) (pending_actions s)"
    and "arduino_state (snd (monitor_line b now line s)) =
           update_telemetry now (classify b line) (arduino_state s)"
    and "conn_open (snd (monitor_line b now line s))"
    and "sent (snd (monitor_line b now line s)) =
           sent s @ line_commands b line (pending_actions s)"
    by simp_all
qed

section \<open>Clearing the pending actions\<close>

lemma monitor_line_nothing_pending:
  assumes "pending_actions s = []"
  shows "pending_actions (snd (monitor_line b now line s)) = [] \<and>
         sent (snd (monitor_line b now line s)) = sent s \<and>
         executed (snd (monitor_line b now line s)) = executed s \<and>
         port_ok (snd (monitor_line b now line s)) = port_ok s \<and>
         conn_open (snd (monitor_line b now line s)) = conn_open s"
  using assms
  by (simp add: monitor_line_def Let_def split: sum.splits option.splits)

lemma monitor_iteration_nothing_pending:
  assumes "pending_actions s = []"
  shows "pending_actions (monitor_iteration b inp s) = [] \<and>
         sent (monitor_iteration b inp s) = sent s \<and>
         executed (monitor_iteration b inp s) = executed s"
proof (cases "get_arduino s")
  case (Inl e)
  then show ?thesis using assms by (simp add: monitor_iteration_def)
next
  case (Inr s1)
  then have "pending_actions s1 = [] \<and> sent s1 = sent s \<and> executed s1 = executed s"
    using assms by (auto simp: get_arduino_def split: if_splits)
  with Inr monitor_line_nothing_pending[of s1 b "fst inp" "snd inp"] show ?thesis
    by (simp add: monitor_iteration_def)
qed

lemma monitor_nothing_pending:
  "pending_actions s = [] \<Longrightarrow>
     pending_actions (monitor_arduino_status b inps s) = [] \<and>
     sent (monitor_arduino_status b inps s) = sent s \<and>
     executed (monitor_arduino_status b inps s) = executed s"
proof (induction inps arbitrary: s)
  case Nil
  then show ?case by simp
next
  case (Cons inp inps)
  from monitor_iteration_nothing_pending[OF Cons.prems, of b inp]
  have i: "pending_actions (monitor_iteration b inp s) = []"
    "sent (monitor_iteration b inp s) = sent s"
    "executed (monitor_iteration b inp s) = executed s" by simp_all
  from Cons.IH[OF i(1)] i show ?case by simp
qed

text \<open>
  Claim C7. \<^verbatim>\<open>clear_all_pending_actions\<close> empties the pending list and reports the
  number of actions it removed; whatever lines the monitor receives afterwards, no action
  is executed, no command is sent, and the list stays empty.
\<close>

theorem clear_all_removes_every_rule:
  "fst (clear_all_pending_actions s) = length (pending_actions s) \<and>
   pending_actions (snd (clear_all_pending_actions s)) = [] \<and>
   executed (monitor_arduino_status b inps (snd (clear_all_pending_actions s))) = executed s \<and>
   sent (monitor_arduino_status b inps (snd (clear_all_pending_actions s))) = sent s \<and>
   pending_actions (monitor_arduino_status b inps (snd (clear_all_pending_actions s))) = []"
  using monitor_nothing_pending[of "snd (clear_all_pending_actions s)" b inps]
  by (simp add: clear_all_pending_actions_def)

section \<open>Sequences of lines and the one-shot rules\<close>

lemma monitor_iteration_open:
  "conn_open s \<Longrightarrow> monitor_iteration b inp s = snd (monitor_line b (fst inp) (snd inp) s)"
  by (simp add: monitor_iteration_def get_arduino_def)

lemma count_list_filter:
  "count_list (filter P xs) a = (if P a then count_list xs a else 0)"
  by (induction xs) auto

lemma monitor_iteration_char:
  assumes "conn_open s"
  shows "conn_open (monitor_iteration b inp s)"
    and "pending_actions (monitor_iteration b inp s) =
           filter (\<lambda>a. \<not> matches (classify b (snd inp)) a) (pending_actions s)"
    and "executed (monitor_iteration b inp s) =
           executed s @ filter (matches (classify b (snd inp))) (pending_actions s)"
    and "sent (monitor_iteration b inp s) =
           sent s @ line_commands b (snd inp) (pending_actions s)"
    and "fired_during s (monitor_iteration b inp s) =
           filter (matches (classify b (snd inp))) (pending_actions s)"
  using monitor_line_char[OF assms, of b "fst inp" "snd inp"] assms
  by (simp_all add: monitor_iteration_open fired_during_def)

lemma monitor_run_char:
  assumes "conn_open s"
  shows "conn_open (monitor_arduino_status b inps s) \<and>
         pending_actions (monitor_arduino_status b inps s) =
           filter (\<lambda>a. \<forall>inp\<in>set inps. \<not> matches (classify b (snd inp)) a) (pending_actions s) \<and>
         (\<exists>E. executed (monitor_arduino_status b inps s) = executed s @ E \<and>
           (\<forall>a. count_list E a =
              (if \<exists>inp\<in>set inps. matches (classify b (snd inp)) a
               then count_list (pending_actions s) a else 0)))"
  using assms
proof (induction inps arbitrary: s)
  case Nil
  then show ?case by simp
next
  case (Cons inp inps)
  let ?s1 = "monitor_iteration b inp s"
  let ?F = "filter (matches (classify b (snd inp))) (pending_actions s)"
  note i = monitor_iteration_char[OF Cons.prems, of b inp]
  from Cons.IH[OF i(1)] obtain E where
    o: "conn_open (monitor_arduino_status b inps ?s1)" and
    p: "pending_actions (monitor_arduino_status b inps ?s1) =
          filter (\<lambda>a. \<forall>inp\<in>set inps. \<not> matches (classify b (snd inp)) a) (pending_actions ?s1)" and
    e: "executed (monitor_arduino_status b inps ?s1) = executed ?s1 @ E" and
    c: "\<And>a. count_list E a =
              (if \<exists>inp\<in>set inps. matches (classify b (snd inp)) a
               then count_list (pending_actions ?s1) a else 0)"
    by blast
  have "executed (monitor_arduino_status b (inp # inps) s) = executed s @ (?F @ E)"
    using e i(3) by simp
  moreover have "\<And>a. count_list (?F @ E) a =
              (if \<exists>x\<in>set (inp # inps). matches (classify b (snd x)) a
               then count_list (pending_actions s) a else 0)"
    using c i(2) by (simp add: count_list_filter)
  moreover have "pending_actions (monitor_arduino_status b (inp # inps) s) =
     filter (\<lambda>a. \<forall>x\<in>set (inp # inps). \<not> matches (classify b (snd x)) a) (pending_actions s)"
    using p i(2) by (simp add: conj_commute)
  ultimately show ?case using o by auto
qed

lemma matches_distance_rule:
  "trigger r = Distance_less_than t \<Longrightarrow> matches (classify b line) r = reports_below b t line"
  by (cases "classify b line") (simp_all add: reports_below_def below_def)

lemma matches_clock_rule:
  "trigger r = Time_equals target \<Longrightarrow> matches (classify b line) r = reports_clock b target line"
  by (cases "classify b line") (auto simp add: reports_clock_def below_def)

lemma float_ge_not_lt: "float_ge a b \<Longrightarrow> \<not> float_lt a b"
  by (cases a; cases b) simp_all

lemma register_success:
  "register tr ta pr s = (Success, s1) \<Longrightarrow>
     \<exists>p. s1 = s\<lparr>pending_actions := pending_actions s @
                  [\<lparr>trigger = tr, action_type = ta, params = p\<rparr>]\<rparr>"
  by (auto simp: register_def split: parsed.splits)


lemma line_commands_nil: "line_commands b line [] = []"
  by (simp add: line_commands_def split: report.splits)

lemma run_commands_nil: "run_commands b inps [] = []"
  by (induction inps) (simp_all add: line_commands_nil)

lemma line_commands_snoc:
  "trigger r \<noteq> Distance_update \<Longrightarrow>
     line_commands b line (ps @ [r]) =
       line_commands b line ps @ (if matches (classify b line) r then action_commands r else [])"
  by (simp add: line_commands_def split: report.splits)

lemma run_commands_single:
  "trigger r \<noteq> Distance_update \<Longrightarrow>
     run_commands b inps [r] =
       (if \<exists>inp\<in>set inps. matches (classify b (snd inp)) r then action_commands r else [])"
proof (induction inps)
  case Nil
  then show ?case by simp
next
  case (Cons inp inps)
  from line_commands_snoc[OF Cons.prems, of b "snd inp" "[]"]
  have l: "line_commands b (snd inp) [r] =
           (if matches (classify b (snd inp)) r then action_commands r else [])"
    by (simp add: line_commands_nil)
  show ?case using Cons l by (simp add: run_commands_nil)
qed

lemma run_commands_contains:
  assumes "trigger r \<noteq> Distance_update"
    and "\<exists>inp\<in>set inps. matches (classify b (snd inp)) r"
  shows "\<exists>before after. run_commands b inps (ps @ [r]) = before @ action_commands r @ after"
  using assms(2)
proof (induction inps arbitrary: ps)
  case Nil
  then show ?case by simp
next
  case (Cons inp inps)
  show ?case
  proof (cases "matches (classify b (snd inp)) r")
    case True
    have "run_commands b (inp # inps) (ps @ [r]) =
          line_commands b (snd inp) ps @ action_commands r @
          run_commands b inps (filter (\<lambda>a. \<not> matches (classify b (snd inp)) a) (ps @ [r]))"
      using True line_commands_snoc[OF assms(1), of b "snd inp" ps] by simp
    then show ?thesis by blast
  next
    case False
    with Cons.prems have "\<exists>inp\<in>set inps. matches (classify b (snd inp)) r" by simp
    from Cons.IH[OF this, of "filter (\<lambda>a. \<not> matches (classify b (snd inp)) a) ps"]
    obtain before after where
      "run_commands b inps (filter (\<lambda>a. \<not> matches (classify b (snd inp)) a) ps @ [r]) =
         before @ action_commands r @ after" by blast
    then have "run_commands b (inp # inps) (ps @ [r]) =
         (line_commands b (snd inp) (ps @ [r]) @ before) @ action_commands r @ after"
      using False by simp
    then show ?thesis by blast
  qed
qed

lemma monitor_run_sent:
  "conn_open s \<Longrightarrow>
     sent (monitor_arduino_status b inps s) = sent s @ run_commands b inps (pending_actions s)"
proof (induction inps arbitrary: s)
  case Nil
  then show ?case by simp
next
  case (Cons inp inps)
  note i = monitor_iteration_char[OF Cons.prems, of b inp]
  from Cons.IH[OF i(1)] i(2,4) show ?case by simp
qed


text \<open>
  Claim C1. A rule registered by \<^verbatim>\<open>when_distance_less_than\<close> with threshold \<open>t\<close> is the
  last pending action \<open>r\<close>. Whatever lines \<open>pre\<close> the monitor has received since, the
  next line executes \<open>r\<close> if and only if it reports a distance below \<open>t\<close> and no line
  of \<open>pre\<close> did, that is on the first such reading and never again; it is pending
  afterwards exactly when no reading below \<open>t\<close> has arrived yet; a reading \<open>cm \<ge> t\<close>
  never executes it. On that first reading \<open>r\<close> is executed once for the new rule and
  once for each identical rule that was pending before: exactly once when there was none.
  Executing it sends its commands: the line of the first reading below \<open>t\<close> sends the
  commands of the rules pending before \<open>r\<close> and then those of \<open>r\<close>. When nothing else is
  pending, the commands of \<open>r\<close> are all that this line sends, and no other line sends
  anything.
\<close>

theorem distance_rule_fires_once_on_first_reading_below:
  assumes "conn_open s"
    and "when_distance_less_than t then_action action_params s = (Success, s1)"
    and "r = last (pending_actions s1)"
    and "s2 = monitor_arduino_status b pre s1"
    and "s3 = monitor_iteration b (now, line) s2"
  shows "trigger r = Distance_less_than t \<and>
         pending_actions s1 = pending_actions s @ [r] \<and>
         count_list (fired_during s2 s3) r =
           (if reports_below b t line \<and> \<not> (\<exists>inp\<in>set pre. reports_below b t (snd inp))
            then Suc (count_list (pending_actions s) r) else 0) \<and>
         (r \<in> set (pending_actions s3) \<longleftrightarrow>
            \<not> reports_below b t line \<and> \<not> (\<exists>inp\<in>set pre. reports_below b t (snd inp))) \<and>
         (\<forall>cm. classify b line = DistanceReport cm \<and> float_ge cm t \<longrightarrow>
            r \<notin> set (fired_during s2 s3)) \<and>
         action_type r = then_action \<and>
         sent s2 = sent s1 @ run_commands b pre (pending_actions s1) \<and>
         sent s3 = sent s2 @ line_commands b line (pending_actions s2) \<and>
         (reports_below b t line \<and> \<not> (\<exists>inp\<in>set pre. reports_below b t (snd inp)) \<longrightarrow>
            sent_during s2 s3 =
              line_commands b line (butlast (pending_actions s2)) @ action_commands r) \<and>
         (pending_actions s = [] \<longrightarrow>
            sent_during s1 s2 =
              (if \<exists>inp\<in>set pre. reports_below b t (snd inp) then action_commands r else []) \<and>
            sent_during s2 s3 =
              (if reports_below b t line \<and> \<not> (\<exists>inp\<in>set pre. reports_below b t (snd inp))
               then action_commands r else []))"
proof -
  from assms(2) obtain p where
    s1: "s1 = s\<lparr>pending_actions := pending_actions s @
                  [\<lparr>trigger = Distance_less_than t, action_type = then_action, params = p\<rparr>]\<rparr>"
    unfolding when_distance_less_than_def by (blast dest: register_success)
  have r: "r = \<lparr>trigger = Distance_less_than t, action_type = then_action, params = p\<rparr>"
    using assms(3) s1 by simp
  have tr: "trigger r = Distance_less_than t" using r by simp
  have nu: "trigger r \<noteq> Distance_update" using tr by simp
  have at: "action_type r = then_action" using r by simp
  have p1: "pending_actions s1 = pending_actions s @ [r]" using s1 r by simp
  have o1: "conn_open s1" using assms(1) s1 by simp
  note m = matches_distance_rule[OF tr, of b]
  from monitor_run_char[OF o1, of b pre]
  have o2: "conn_open s2"
    and p2: "pending_actions s2 =
      filter (\<lambda>a. \<forall>inp\<in>set pre. \<not> matches (classify b (snd inp)) a) (pending_actions s1)"
    using assms(4) by simp_all
  note i = monitor_iteration_char[OF o2, of b "(now, line)"]
  have f: "fired_during s2 s3 = filter (matches (classify b line)) (pending_actions s2)"
    using i(5) assms(5) by simp
  have p3: "pending_actions s3 =
      filter (\<lambda>a. \<not> matches (classify b line) a) (pending_actions s2)"
    using i(2) assms(5) by simp
  have c: "count_list (fired_during s2 s3) r =
           (if reports_below b t line \<and> \<not> (\<exists>inp\<in>set pre. reports_below b t (snd inp))
            then Suc (count_list (pending_actions s) r) else 0)"
    unfolding f p2 p1 by (simp add: count_list_filter m)
  have d: "r \<in> set (pending_actions s3) \<longleftrightarrow>
            \<not> reports_below b t line \<and> \<not> (\<exists>inp\<in>set pre. reports_below b t (snd inp))"
    unfolding p3 p2 p1 by (auto simp: m)
  have g: "\<forall>cm. classify b line = DistanceReport cm \<and> float_ge cm t \<longrightarrow>
            r \<notin> set (fired_during s2 s3)"
    unfolding f using tr by (auto simp: below_def dest: float_ge_not_lt)
  have snt2: "sent s2 = sent s1 @ run_commands b pre (pending_actions s1)"
    using monitor_run_sent[OF o1, of b pre] assms(4) by simp
  have snt3: "sent s3 = sent s2 @ line_commands b line (pending_actions s2)"
    using i(4) assms(5) by simp
  have first: "reports_below b t line \<and> \<not> (\<exists>inp\<in>set pre. reports_below b t (snd inp)) \<longrightarrow>
            sent_during s2 s3 =
              line_commands b line (butlast (pending_actions s2)) @ action_commands r"
  proof
    assume h: "reports_below b t line \<and> \<not> (\<exists>inp\<in>set pre. reports_below b t (snd inp))"
    let ?rest = "filter (\<lambda>a. \<forall>inp\<in>set pre. \<not> matches (classify b (snd inp)) a)
                   (pending_actions s)"
    have q: "pending_actions s2 = ?rest @ [r]" unfolding p2 p1 using h by (simp add: m)
    have "line_commands b line (pending_actions s2) =
          line_commands b line ?rest @ action_commands r"
      unfolding q using line_commands_snoc[OF nu, of b line ?rest] h by (simp add: m)
    then show "sent_during s2 s3 =
              line_commands b line (butlast (pending_actions s2)) @ action_commands r"
      using snt3 q by (simp add: sent_during_def)
  qed
  have alone: "pending_actions s = [] \<longrightarrow>
            sent_during s1 s2 =
              (if \<exists>inp\<in>set pre. reports_below b t (snd inp) then action_commands r else []) \<and>
            sent_during s2 s3 =
              (if reports_below b t line \<and> \<not> (\<exists>inp\<in>set pre. reports_below b t (snd inp))
               then action_commands r else [])"
  proof
    assume e: "pending_actions s = []"
    have a: "sent_during s1 s2 =
              (if \<exists>inp\<in>set pre. reports_below b t (snd inp) then action_commands r else [])"
      using snt2 p1 e run_commands_single[OF nu, of b pre]
      by (simp add: sent_during_def m)
    have q: "pending_actions s2 =
              (if \<exists>inp\<in>set pre. reports_below b t (snd inp) then [] else [r])"
      unfolding p2 p1 e by (simp add: m)
    have "line_commands b line (pending_actions s2) =
              (if reports_below b t line \<and> \<not> (\<exists>inp\<in>set pre. reports_below b t (snd inp))
               then action_commands r else [])"
      unfolding q using line_commands_snoc[OF nu, of b line "[]"]
      by (simp add: line_commands_nil m)
    then have "sent_during s2 s3 =
              (if reports_below b t line \<and> \<not> (\<exists>inp\<in>set pre. reports_below b t (snd inp))
               then action_commands r else [])"
      using snt3 by (simp add: sent_during_def)
    with a show "sent_during s1 s2 =
              (if \<exists>inp\<in>set pre. reports_below b t (snd inp) then action_commands r else []) \<and>
            sent_during s2 s3 =
              (if reports_below b t line \<and> \<not> (\<exists>inp\<in>set pre. reports_below b t (snd inp))
               then action_commands r else [])" by simp
  qed
  from tr p1 c d g at snt2 snt3 first alone show ?thesis by blast
qed

lemma py_int_500: "py_int ''500'' = Some 500"
  by (simp add: py_int_def py_strip_def py_space_def py_nat_def digit_val_def)

lemma show_int_500: "show_int 500 = ''500''"
  by code_simp

lemma armed_distance_eq:
  "when_distance_less_than (Finite 10) ''buzzer_beep'' (Some ''500'') fresh =
     (Success, fresh\<lparr>pending_actions :=
        [\<lparr>trigger = Distance_less_than (Finite 10), action_type = ''buzzer_beep'',
          params = Duration 500\<rparr>]\<rparr>)"
  by (simp add: when_distance_less_than_def register_def parse_action_params_def
        int_or_1000_def py_int_500 fresh_def)

theorem distance_rule_fires_once_witness:
  "conn_open fresh \<and>
   when_distance_less_than (Finite 10) ''buzzer_beep'' (Some ''500'') fresh =
     (Success, armed_distance) \<and>
   count_list
     (fired_during
        (monitor_arduino_status example_builtins [(1, ''DISTANCE:20'')] armed_distance)
        (monitor_iteration example_builtins (2, ''DISTANCE:5'')
           (monitor_arduino_status example_builtins [(1, ''DISTANCE:20'')] armed_distance)))
     (last (pending_actions armed_distance)) = 1 \<and>
   last (pending_actions armed_distance) \<notin>
     set (pending_actions
        (monitor_iteration example_builtins (2, ''DISTANCE:5'')
           (monitor_arduino_status example_builtins [(1, ''DISTANCE:20'')] armed_distance))) \<and>
   sent_during armed_distance
     (monitor_arduino_status example_builtins [(1, ''DISTANCE:20'')] armed_distance) = [] \<and>
   sent_during
     (monitor_arduino_status example_builtins [(1, ''DISTANCE:20'')] armed_distance)
     (monitor_iteration example_builtins (2, ''DISTANCE:5'')
        (monitor_arduino_status example_builtins [(1, ''DISTANCE:20'')] armed_distance)) =
     [''BUZZER:BEEP:500'']"
proof -
  have h1: "conn_open fresh" by (simp add: fresh_def)
  have h2: "when_distance_less_than (Finite 10) ''buzzer_beep'' (Some ''500'') fresh =
     (Success, armed_distance)"
    by (simp add: armed_distance_def armed_distance_eq)
  have b5: "reports_below example_builtins (Finite 10) ''DISTANCE:5''"
    by (simp add: reports_below_def classify_def starts_with_def field_def example_builtins_def)
  have b20: "\<not> reports_below example_builtins (Finite 10) ''DISTANCE:20''"
    by (simp add: reports_below_def classify_def starts_with_def field_def example_builtins_def)
  have n: "pending_actions fresh = []" by (simp add: fresh_def)
  have ad: "armed_distance = fresh\<lparr>pending_actions :=
        [\<lparr>trigger = Distance_less_than (Finite 10), action_type = ''buzzer_beep'',
          params = Duration 500\<rparr>]\<rparr>"
    by (simp add: armed_distance_def armed_distance_eq)
  have a: "action_commands (last (pending_actions armed_distance)) = [''BUZZER:BEEP:500'']"
    unfolding ad by (simp add: action_commands_def duration_of_def show_int_500)
  note t = distance_rule_fires_once_on_first_reading_below
         [where s = fresh and t = "Finite 10" and then_action = "''buzzer_beep''"
            and action_params = "Some ''500''" and ?s1.0 = armed_distance
            and r = "last (pending_actions armed_distance)" and b = example_builtins
            and pre = "[(1, ''DISTANCE:20'')]" and now = 2 and line = "''DISTANCE:5''",
          OF h1 h2 refl refl refl]
  note c = t[THEN conjunct2, THEN conjunct2, THEN conjunct1]
  note d = t[THEN conjunct2, THEN conjunct2, THEN conjunct2, THEN conjunct1]
  note al = t[THEN conjunct2, THEN conjunct2, THEN conjunct2, THEN conjunct2, THEN conjunct2,
              THEN conjunct2, THEN conjunct2, THEN conjunct2, THEN conjunct2, THEN mp, OF n]
  from c have c': "count_list
     (fired_during
        (monitor_arduino_status example_builtins [(1, ''DISTANCE:20'')] armed_distance)
        (monitor_iteration example_builtins (2, ''DISTANCE:5'')
           (monitor_arduino_status example_builtins [(1, ''DISTANCE:20'')] armed_distance)))
     (last (pending_actions armed_distance)) = 1"
    using b5 b20 n by simp
  from d have d': "last (pending_actions armed_distance) \<notin>
     set (pending_actions
        (monitor_iteration example_builtins (2, ''DISTANCE:5'')
           (monitor_arduino_status example_builtins [(1, ''DISTANCE:20'')] armed_distance)))"
    using b5 by simp
  from al have al': "sent_during armed_distance
     (monitor_arduino_status example_builtins [(1, ''DISTANCE:20'')] armed_distance) = []"
    "sent_during
     (monitor_arduino_status example_builtins [(1, ''DISTANCE:20'')] armed_distance)
     (monitor_iteration example_builtins (2, ''DISTANCE:5'')
        (monitor_arduino_status example_builtins [(1, ''DISTANCE:20'')] armed_distance)) =
     [''BUZZER:BEEP:500'']"
    using b5 b20 a by simp_all
  from h1 h2 c' d' al' show ?thesis by blast
qed

text \<open>
  Claim C2. A rule registered by \<^verbatim>\<open>when_time_equals\<close> with target \<open>target\<close> is the last
  pending action \<open>r\<close>. Over any lines the monitor receives afterwards, \<open>r\<close> is executed
  if and only if one of them is a clock report whose value is the very string \<open>target\<close>;
  any other value leaves it pending. It is executed once for the new rule and once for
  each identical rule that was pending before, and is pending afterwards exactly when no
  line carried \<open>target\<close>. Executing it sends its commands: when a line carries
  \<open>target\<close>, the commands of \<open>r\<close> are among the commands sent, and when nothing else is
  pending they are all that is sent; when no line carries \<open>target\<close> and nothing else is
  pending, nothing is sent.
\<close>

theorem clock_rule_fires_iff_exact_value:
  assumes "conn_open s"
    and "when_time_equals target then_action action_params s = (Success, s1)"
    and "r = last (pending_actions s1)"
    and "s2 = monitor_arduino_status b inps s1"
  shows "trigger r = Time_equals target \<and>
         pending_actions s1 = pending_actions s @ [r] \<and>
         (r \<in> set (fired_during s1 s2) \<longleftrightarrow>
            (\<exists>inp\<in>set inps. reports_clock b target (snd inp))) \<and>
         count_list (fired_during s1 s2) r =
           (if \<exists>inp\<in>set inps. reports_clock b target (snd inp)
            then Suc (count_list (pending_actions s) r) else 0) \<and>
         (r \<in> set (pending_actions s2) \<longleftrightarrow>
            \<not> (\<exists>inp\<in>set inps. reports_clock b target (snd inp))) \<and>
         action_type r = then_action \<and>
         sent s2 = sent s1 @ run_commands b inps (pending_actions s1) \<and>
         ((\<exists>inp\<in>set inps. reports_clock b target (snd inp)) \<longrightarrow>
            (\<exists>before after. sent_during s1 s2 = before @ action_commands r @ after)) \<and>
         (pending_actions s = [] \<longrightarrow>
            sent_during s1 s2 =
              (if \<exists>inp\<in>set inps. reports_clock b target (snd inp)
               then action_commands r else []))"
proof -
  from assms(2) have "register (Time_equals target) then_action
             (parse_action_params ''Error: Timer format must be MM:SS'' then_action action_params) s
           = (Success, s1)"
    unfolding when_time_equals_def by (simp split: if_splits)
  then obtain p where
    s1: "s1 = s\<lparr>pending_actions := pending_actions s @
                  [\<lparr>trigger = Time_equals target, action_type = then_action, params = p\<rparr>]\<rparr>"
    by (blast dest: register_success)
  have r: "r = \<lparr>trigger = Time_equals target, action_type = then_action, params = p\<rparr>"
    using assms(3) s1 by simp
  have tr: "trigger r = Time_equals target" using r by simp
  have p1: "pending_actions s1 = pending_actions s @ [r]" using s1 r by simp
  have o1: "conn_open s1" using assms(1) s1 by simp
  note m = matches_clock_rule[OF tr, of b]
  from monitor_run_char[OF o1, of b inps] obtain E where
    p2: "pending_actions s2 =
      filter (\<lambda>a. \<forall>inp\<in>set inps. \<not> matches (classify b (snd inp)) a) (pending_actions s1)"
    and e: "executed s2 = executed s1 @ E"
    and c: "\<And>a. count_list E a =
              (if \<exists>inp\<in>set inps. matches (classify b (snd inp)) a
               then count_list (pending_actions s1) a else 0)"
    using assms(4) by auto
  have f: "fired_during s1 s2 = E" using e by (simp add: fired_during_def)
  have cnt: "count_list (fired_during s1 s2) r =
           (if \<exists>inp\<in>set inps. reports_clock b target (snd inp)
            then Suc (count_list (pending_actions s) r) else 0)"
    unfolding f c p1 by (simp add: m)
  have mem: "r \<in> set (fired_during s1 s2) \<longleftrightarrow>
            (\<exists>inp\<in>set inps. reports_clock b target (snd inp))"
    using cnt by (metis count_list_0_iff nat.simps(3))
  have d: "r \<in> set (pending_actions s2) \<longleftrightarrow>
            \<not> (\<exists>inp\<in>set inps. reports_clock b target (snd inp))"
    unfolding p2 p1 by (auto simp: m)
  have nu: "trigger r \<noteq> Distance_update" using tr by simp
  have at: "action_type r = then_action" using r by simp
  have snt: "sent s2 = sent s1 @ run_commands b inps (pending_actions s1)"
    using monitor_run_sent[OF o1, of b inps] assms(4) by simp
  have among: "(\<exists>inp\<in>set inps. reports_clock b target (snd inp)) \<longrightarrow>
            (\<exists>before after. sent_during s1 s2 = before @ action_commands r @ after)"
  proof
    assume "\<exists>inp\<in>set inps. reports_clock b target (snd inp)"
    then have "\<exists>inp\<in>set inps. matches (classify b (snd inp)) r" by (simp add: m)
    from run_commands_contains[OF nu this, of "pending_actions s"]
    show "\<exists>before after. sent_during s1 s2 = before @ action_commands r @ after"
      using snt p1 by (simp add: sent_during_def)
  qed
  have alone: "pending_actions s = [] \<longrightarrow>
            sent_during s1 s2 =
              (if \<exists>inp\<in>set inps. reports_clock b target (snd inp)
               then action_commands r else [])"
    using snt p1 run_commands_single[OF nu, of b inps] by (simp add: sent_during_def m)
  from tr p1 mem cnt d at snt among alone show ?thesis by blast
qed

lemma py_int_2000: "py_int ''2000'' = Some 2000"
  by (simp add: py_int_def py_strip_def py_space_def py_nat_def digit_val_def)

lemma armed_clock_eq:
  "when_time_equals ''07:15:00'' ''buzzer_beep'' (Some ''2000'') fresh =
     (Success, fresh\<lparr>pending_actions :=
        [\<lparr>trigger = Time_equals ''07:15:00'', action_type = ''buzzer_beep'',
          params = Duration 2000\<rparr>]\<rparr>)"
  by (simp add: when_time_equals_def time_format_ok_def is_digit_def digit_val_def
        register_def parse_action_params_def int_or_1000_def py_int_2000 fresh_def)

lemma show_int_2000: "show_int 2000 = ''2000''"
  by code_simp

theorem clock_rule_fires_iff_exact_value_witness:
  "conn_open fresh \<and>
   when_time_equals ''07:15:00'' ''buzzer_beep'' (Some ''2000'') fresh = (Success, armed_clock) \<and>
   last (pending_actions armed_clock) \<notin>
     set (fired_during armed_clock
            (monitor_arduino_status example_builtins
               [(1, ''CLOCK:LCD:07:14:59''), (2, ''CLOCK:LCD:07:15:01'')] armed_clock)) \<and>
   sent_during armed_clock
     (monitor_arduino_status example_builtins
        [(1, ''CLOCK:LCD:07:14:59''), (2, ''CLOCK:LCD:07:15:01'')] armed_clock) = [] \<and>
   count_list
     (fired_during armed_clock
        (monitor_arduino_status example_builtins
           [(1, ''CLOCK:LCD:07:14:59''), (2, ''CLOCK:LCD:07:15:00'')] armed_clock))
     (last (pending_actions armed_clock)) = 1 \<and>
   sent_during armed_clock
     (monitor_arduino_status example_builtins
        [(1, ''CLOCK:LCD:07:14:59''), (2, ''CLOCK:LCD:07:15:00'')] armed_clock) =
     [''BUZZER:BEEP:2000'']"
proof -
  have h1: "conn_open fresh" by (simp add: fresh_def)
  have h2: "when_time_equals ''07:15:00'' ''buzzer_beep'' (Some ''2000'') fresh =
     (Success, armed_clock)"
    by (simp add: armed_clock_def armed_clock_eq)
  have c: "reports_clock example_builtins ''07:15:00'' ''CLOCK:LCD:07:15:00''"
    "\<not> reports_clock example_builtins ''07:15:00'' ''CLOCK:LCD:07:14:59''"
    "\<not> reports_clock example_builtins ''07:15:00'' ''CLOCK:LCD:07:15:01''"
    by (simp_all add: reports_clock_def classify_def starts_with_def)
  have n: "pending_actions fresh = []" by (simp add: fresh_def)
  have ac: "armed_clock = fresh\<lparr>pending_actions :=
        [\<lparr>trigger = Time_equals ''07:15:00'', action_type = ''buzzer_beep'',
          params = Duration 2000\<rparr>]\<rparr>"
    by (simp add: armed_clock_def armed_clock_eq)
  have a: "action_commands (last (pending_actions armed_clock)) = [''BUZZER:BEEP:2000'']"
    unfolding ac by (simp add: action_commands_def duration_of_def show_int_2000)
  note t = clock_rule_fires_iff_exact_value
         [where s = fresh and target = "''07:15:00''" and then_action = "''buzzer_beep''"
            and action_params = "Some ''2000''" and ?s1.0 = armed_clock
            and r = "last (pending_actions armed_clock)" and b = example_builtins,
          OF h1 h2 refl refl]
  note miss = t[of "[(1, ''CLOCK:LCD:07:14:59''), (2, ''CLOCK:LCD:07:15:01'')]"]
  note hit = t[of "[(1, ''CLOCK:LCD:07:14:59''), (2, ''CLOCK:LCD:07:15:00'')]"]
  note last8 = conjunct2[THEN conjunct2, THEN conjunct2, THEN conjunct2, THEN conjunct2,
                 THEN conjunct2, THEN conjunct2, THEN conjunct2]
  from miss[THEN conjunct2, THEN conjunct2, THEN conjunct1]
  have m1: "last (pending_actions armed_clock) \<notin>
     set (fired_during armed_clock
            (monitor_arduino_status example_builtins
               [(1, ''CLOCK:LCD:07:14:59''), (2, ''CLOCK:LCD:07:15:01'')] armed_clock))"
    using c by simp
  from miss[THEN last8, THEN mp, OF n]
  have m2: "sent_during armed_clock
     (monitor_arduino_status example_builtins
        [(1, ''CLOCK:LCD:07:14:59''), (2, ''CLOCK:LCD:07:15:01'')] armed_clock) = []"
    using c by simp
  from hit[THEN conjunct2, THEN conjunct2, THEN conjunct2, THEN conjunct1]
  have h3: "count_list
     (fired_during armed_clock
        (monitor_arduino_status example_builtins
           [(1, ''CLOCK:LCD:07:14:59''), (2, ''CLOCK:LCD:07:15:00'')] armed_clock))
     (last (pending_actions armed_clock)) = 1"
    using c n by simp
  from hit[THEN last8, THEN mp, OF n]
  have h4: "sent_during armed_clock
     (monitor_arduino_status example_builtins
        [(1, ''CLOCK:LCD:07:14:59''), (2, ''CLOCK:LCD:07:15:00'')] armed_clock) =
     [''BUZZER:BEEP:2000'']"
    using c a by simp
  from h1 h2 m1 m2 h3 h4 show ?thesis by blast
qed

lemma classify_countdown_finished: "classify b ''COUNTDOWN:FINISHED'' = TimerFinished"
  by (simp add: classify_def starts_with_def)

lemma when_timer_finishes_beep_500:
  "when_timer_finishes ''buzzer_beep'' (Some ''500'') s =
     (Success, s\<lparr>pending_actions := pending_actions s @
        [\<lparr>trigger = Timer_zero, action_type = ''buzzer_beep'', params = Duration 500\<rparr>]\<rparr>)"
  by (simp add: when_timer_finishes_def register_def parse_action_params_def
        int_or_1000_def py_int_500)

text \<open>
  Claim C3. On an open connection, \<^verbatim>\<open>when_timer_finishes("buzzer_beep", "500")\<close> succeeds,
  and the line \<^verbatim>\<open>COUNTDOWN:FINISHED\<close> received next makes the monitor send the commands of
  the timer rules that were pending before, in their order, and then \<^verbatim>\<open>BUZZER:BEEP:500\<close>;
  no timer rule is pending afterwards. When no timer rule was pending before the
  registration, exactly one command is sent, and it is \<^verbatim>\<open>BUZZER:BEEP:500\<close>.
\<close>

theorem timer_rule_sends_one_beep:
  assumes "conn_open s"
    and "s1 = snd (when_timer_finishes ''buzzer_beep'' (Some ''500'') s)"
    and "s2 = monitor_iteration b (now, ''COUNTDOWN:FINISHED'') s1"
  shows "fst (when_timer_finishes ''buzzer_beep'' (Some ''500'') s) = Success \<and>
         sent s2 = sent s @
           concat (map action_commands
             (filter (\<lambda>a. trigger a = Timer_zero) (pending_actions s))) @
           [''BUZZER:BEEP:500''] \<and>
         filter (\<lambda>a. trigger a = Timer_zero) (pending_actions s2) = [] \<and>
         (filter (\<lambda>a. trigger a = Timer_zero) (pending_actions s) = [] \<longrightarrow>
            sent_during s s2 = [''BUZZER:BEEP:500''])"
proof -
  let ?r = "\<lparr>trigger = Timer_zero, action_type = ''buzzer_beep'', params = Duration 500\<rparr>"
  have s1: "s1 = s\<lparr>pending_actions := pending_actions s @ [?r]\<rparr>"
    using assms(2) by (simp add: when_timer_finishes_beep_500)
  have o1: "conn_open s1" using assms(1) s1 by simp
  note i = monitor_iteration_char[OF o1, of b "(now, ''COUNTDOWN:FINISHED'')"]
  have mm: "matches TimerFinished = (\<lambda>a. trigger a = Timer_zero)" by (rule ext) simp
  have ac: "action_commands ?r = [''BUZZER:BEEP:500'']"
    by (simp add: action_commands_def duration_of_def show_int_500)
  have lc: "line_commands b ''COUNTDOWN:FINISHED'' (pending_actions s1) =
          concat (map action_commands
             (filter (\<lambda>a. trigger a = Timer_zero) (pending_actions s))) @ [''BUZZER:BEEP:500'']"
    unfolding line_commands_def classify_countdown_finished mm s1 using ac by simp
  have snt: "sent s2 = sent s @
           concat (map action_commands
             (filter (\<lambda>a. trigger a = Timer_zero) (pending_actions s))) @
           [''BUZZER:BEEP:500'']"
    using i(4) assms(3) lc s1 by simp
  have pend: "filter (\<lambda>a. trigger a = Timer_zero) (pending_actions s2) = []"
    using i(2) assms(3) by (simp add: classify_countdown_finished mm)
  have one: "filter (\<lambda>a. trigger a = Timer_zero) (pending_actions s) = [] \<longrightarrow>
            sent_during s s2 = [''BUZZER:BEEP:500'']"
    using snt by (simp add: sent_during_def)
  from snt pend one show ?thesis by (simp add: when_timer_finishes_beep_500)
qed

theorem timer_rule_sends_one_beep_witness:
  "conn_open fresh \<and>
   sent (monitor_iteration example_builtins (1, ''COUNTDOWN:FINISHED'') armed_timer) =
     [''BUZZER:BEEP:500''] \<and>
   pending_actions (monitor_iteration example_builtins (1, ''COUNTDOWN:FINISHED'') armed_timer)
     = []"
proof -
  have h1: "conn_open fresh" by (simp add: fresh_def)
  have n: "pending_actions fresh = []" "sent fresh = []" by (simp_all add: fresh_def)
  have a: "pending_actions armed_timer =
      [\<lparr>trigger = Timer_zero, action_type = ''buzzer_beep'', params = Duration 500\<rparr>]"
    "conn_open armed_timer"
    by (simp_all add: armed_timer_def when_timer_finishes_beep_500 fresh_def)
  have p: "pending_actions (monitor_iteration example_builtins (1, ''COUNTDOWN:FINISHED'')
             armed_timer) = []"
    using monitor_iteration_char(2)[OF a(2), of example_builtins "(1, ''COUNTDOWN:FINISHED'')"]
    by (simp add: a classify_countdown_finished)
  from timer_rule_sends_one_beep[OF h1 armed_timer_def refl, of example_builtins 1]
  show ?thesis using h1 n p by simp
qed

section \<open>Registration\<close>














section \<open>Telemetry and the character display\<close>

lemma send_command_telemetry:
  "send_command c s = Inr s1 \<Longrightarrow> arduino_state s1 = arduino_state s"
  using send_command_cases[of c s] by auto

lemma register_telemetry:
  "arduino_state (snd (register tr ta pr s)) = arduino_state s"
  by (simp add: register_def split: parsed.splits)

lemma monitor_iteration_telemetry:
  "arduino_state (monitor_iteration b (now, line) s) =
     (if conn_open s \<or> port_ok s
      then update_telemetry now (classify b line) (arduino_state s)
      else arduino_state s)"
proof (cases "get_arduino s")
  case (Inl e)
  then show ?thesis
    by (auto simp: monitor_iteration_def get_arduino_def split: if_splits)
next
  case (Inr s1)
  then have o: "conn_open s1" and t: "arduino_state s1 = arduino_state s"
    and c: "conn_open s \<or> port_ok s"
    by (auto simp: get_arduino_def split: if_splits)
  from monitor_line_char(3)[OF o, of b now line] Inr t c show ?thesis
    by (simp add: monitor_iteration_def)
qed

lemma send_commands_telemetry:
  "arduino_state (snd (send_commands cs s)) = arduino_state s"
proof (induction cs arbitrary: s)
  case Nil
  then show ?case by simp
next
  case (Cons c cs)
  show ?case
  proof (cases "send_command c s")
    case (Inl e)
    then show ?thesis by simp
  next
    case (Inr s1)
    with Cons[of s1] send_command_telemetry[OF Inr] show ?thesis by simp
  qed
qed

lemma get_arduino_telemetry:
  "get_arduino s = Inr s1 \<Longrightarrow> arduino_state s1 = arduino_state s"
  by (auto simp: get_arduino_def split: if_splits)

lemma ultrasonic_read_telemetry:
  "arduino_state (snd (ultrasonic_read b w s)) = arduino_state s"
  by (auto simp: ultrasonic_read_def split: sum.splits reply.splits option.splits
        dest!: get_arduino_telemetry send_command_telemetry)

lemma proximity_alert_telemetry:
  "arduino_state (snd (proximity_alert b w s)) = arduino_state s"
proof (cases "get_arduino s")
  case (Inl e)
  then show ?thesis by (simp add: proximity_alert_def)
next
  case s0: (Inr s0)
  show ?thesis
  proof (cases "send_command ''ULTRA:READ'' s0")
    case (Inl e)
    with s0 get_arduino_telemetry[OF s0] show ?thesis by (simp add: proximity_alert_def)
  next
    case s1: (Inr s1)
    have t: "arduino_state s1 = arduino_state s"
      using get_arduino_telemetry[OF s0] send_command_telemetry[OF s1] by simp
    show ?thesis using s0 s1 t
      by (cases "reply w")
         (simp_all add: proximity_alert_def Let_def send_commands_telemetry
            del: send_commands.simps)
  qed
qed

lemma call_tool_telemetry:
  "arduino_state (snd (call_tool b w t s)) = arduino_state s"
proof (cases t)
  case (Lcd_write_line1 x)
  then show ?thesis
    by (auto simp: lcd_write_line1_def split: sum.splits dest: send_command_telemetry)
next
  case (Lcd_write_line2 x)
  then show ?thesis
    by (auto simp: lcd_write_line2_def split: sum.splits dest: send_command_telemetry)
next
  case (Lcd_display_message line1 line2)
  then show ?thesis
    by (auto simp: lcd_display_message_def Let_def split: sum.splits
          dest!: send_command_telemetry)
next
  case (Display_timer minutes seconds)
  then show ?thesis
    by (auto simp: display_timer_def split: sum.splits dest: send_command_telemetry)
next
  case Ultrasonic_read
  then show ?thesis by (simp add: ultrasonic_read_telemetry)
next
  case Proximity_alert
  then show ?thesis by (simp add: proximity_alert_telemetry)
next
  case Test_connection
  then show ?thesis
    by (auto simp: test_connection_def split: sum.splits dest: get_arduino_telemetry)
next
  case (When_timer_finishes then_action action_params)
  then show ?thesis by (simp add: when_timer_finishes_def register_telemetry)
next
  case (When_time_equals target_time then_action action_params)
  then show ?thesis by (simp add: when_time_equals_def register_telemetry)
next
  case (When_distance_less_than distance_cm then_action action_params)
  then show ?thesis by (simp add: when_distance_less_than_def register_telemetry)
next
  case Show_live_ultrasonic_on_lcd
  then show ?thesis
    by (auto simp: show_live_ultrasonic_on_lcd_def Let_def split: sum.splits
          dest!: send_command_telemetry)
next
  case Clear_all_pending_actions
  then show ?thesis by (simp add: clear_all_pending_actions_def)
qed (simp_all add: send_commands_telemetry led_on_def led_off_def led_blink_def led_toggle_def
       buzzer_on_def buzzer_off_def buzzer_beep_tool_def lcd_clear_def lcd_backlight_on_def
       lcd_backlight_off_def lcd_show_current_time_def lcd_start_stopwatch_def
       lcd_stop_stopwatch_def display_number_tool_def display_time_def
       display_current_time_def display_start_stopwatch_def display_stop_stopwatch_def
       display_clear_tool_def display_brightness_tool_def ultrasonic_start_def
       ultrasonic_stop_def explain_display_capabilities_def get_system_status_def all_off_def
       welcome_message_def countdown_display_def display_info_def celebration_def
       get_current_status_def del: send_commands.simps)

text \<open>
  Claim C9. No tool of the server changes \<^verbatim>\<open>arduino_state\<close>, whatever its arguments,
  whatever it finds around it, and whether it succeeds, returns an error or raises;
  \<open>call_tool\<close> ranges over all of them, and starting a countdown with
  \<^verbatim>\<open>display_timer\<close> is one. The monitor alone changes \<^verbatim>\<open>arduino_state\<close>, and only by the
  report that a received line carries; a line that carries none, and a line that cannot
  be read because the port cannot be opened, change nothing.
\<close>

theorem telemetry_changes_only_on_received_lines:
  "arduino_state (snd (call_tool b w t s)) = arduino_state s \<and>
   arduino_state (snd (display_timer minutes seconds s)) = arduino_state s \<and>
   arduino_state (monitor_iteration b (now, line) s) =
     (if conn_open s \<or> port_ok s
      then update_telemetry now (classify b line) (arduino_state s)
      else arduino_state s)"
  using call_tool_telemetry[of b w t s] call_tool_telemetry[of b w "Display_timer minutes seconds" s]
        monitor_iteration_telemetry[of b now line s]
  by simp

text \<open>
  Claim C10. When the port is open or can be opened, \<^verbatim>\<open>lcd_write_line1\<close> and
  \<^verbatim>\<open>lcd_write_line2\<close> succeed and send one command, whose text is the first 16
  characters of the input, and \<^verbatim>\<open>lcd_display_message\<close> succeeds and sends the first 16
  characters of its first line, followed by the first 16 characters of its second line
  when that line is not empty. A text of at most 16 characters is sent as it is; a
  longer one is cut, never refused.
\<close>

theorem lcd_text_is_cut_to_16_characters:
  assumes "conn_open s \<or> port_ok s"
  shows "fst (lcd_write_line1 text s) = Success \<and>
         sent_during s (snd (lcd_write_line1 text s)) = [''LCD:LINE1:'' @ take 16 text] \<and>
         fst (lcd_write_line2 text s) = Success \<and>
         sent_during s (snd (lcd_write_line2 text s)) = [''LCD:LINE2:'' @ take 16 text] \<and>
         fst (lcd_display_message line1 line2 s) = Success \<and>
         sent_during s (snd (lcd_display_message line1 line2 s)) =
           (''LCD:LINE1:'' @ take 16 line1) #
           (if line2 = [] then [] else [''LCD:LINE2:'' @ take 16 line2]) \<and>
         (length text \<le> 16 \<longrightarrow> take 16 text = text)"
proof -
  have sc: "\<And>c. \<exists>s1. send_command c s = Inr s1 \<and> conn_open s1 \<and> sent s1 = sent s @ [c]"
    using assms by (auto simp: send_command_def get_arduino_def)
  have 1: "fst (lcd_write_line1 text s) = Success \<and>
         sent_during s (snd (lcd_write_line1 text s)) = [''LCD:LINE1:'' @ take 16 text]"
    using sc[of "''LCD:LINE1:'' @ take 16 text"]
    by (auto simp: lcd_write_line1_def sent_during_def)
  have 2: "fst (lcd_write_line2 text s) = Success \<and>
         sent_during s (snd (lcd_write_line2 text s)) = [''LCD:LINE2:'' @ take 16 text]"
    using sc[of "''LCD:LINE2:'' @ take 16 text"]
    by (auto simp: lcd_write_line2_def sent_during_def)
  from sc[of "''LCD:LINE1:'' @ take 16 line1"] obtain s1 where
    s1: "send_command (''LCD:LINE1:'' @ take 16 line1) s = Inr s1" "conn_open s1"
      "sent s1 = sent s @ [''LCD:LINE1:'' @ take 16 line1]" by blast
  have 3: "fst (lcd_display_message line1 line2 s) = Success \<and>
         sent_during s (snd (lcd_display_message line1 line2 s)) =
           (''LCD:LINE1:'' @ take 16 line1) #
           (if line2 = [] then [] else [''LCD:LINE2:'' @ take 16 line2])"
    using s1 send_command_open[OF s1(2), of "''LCD:LINE2:'' @ take 16 line2"]
    by (auto simp: lcd_display_message_def Let_def sent_during_def)
  from 1 2 3 show ?thesis by simp
qed

theorem lcd_text_is_cut_to_16_characters_witness:
  "(conn_open fresh \<or> port_ok fresh) \<and>
   sent_during fresh (snd (lcd_write_line1 ''Temperature is 22.5 C'' fresh)) =
     [''LCD:LINE1:Temperature is 2''] \<and>
   sent_during fresh (snd (lcd_display_message ''Welcome'' ''User 123'' fresh)) =
     [''LCD:LINE1:Welcome'', ''LCD:LINE2:User 123'']"
proof -
  have h: "conn_open fresh \<or> port_ok fresh" by (simp add: fresh_def)
  from lcd_text_is_cut_to_16_characters[OF h, of "''Temperature is 22.5 C''" "''Welcome''"
         "''User 123''"]
  show ?thesis using h by simp
qed

section \<open>The countdown on the console\<close>

lemma run_replicate_Suc:
  "run (replicate (Suc n) ev) sys = run (replicate n ev) (step ev sys)"
  by simp


lemma step_wake_single:
  "step (Wake 0 now) \<lparr>ctl = c, tasks = [co]\<rparr> =
     \<lparr>ctl = snd (resume now co c), tasks = [fst (resume now co c)]\<rparr>"
  by (simp add: step_def Let_def)

lemma show_int_300: "show_int 300 = ''300''"
  by code_simp

lemma beep_300:
  "arduino c \<Longrightarrow> buzzer_beep 300 c = c\<lparr>written := written c @ [''BUZZER:BEEP:300'']\<rparr>"
  by (simp add: buzzer_beep_def send_command_mc_def show_int_300)

lemma countdown_at_zero:
  assumes "arduino c" "running c" "timer_active_mc c"
  shows "run (replicate 4 (Wake 0 [])) \<lparr>ctl = c, tasks = [Countdown_sleeping 0]\<rparr> =
     \<lparr>ctl = c\<lparr>written := written c @ remaining_display 0 # replicate 3 ''BUZZER:BEEP:300'',
               timer_active_mc := False\<rparr>,
      tasks = [Finished]\<rparr>"
proof -
  have r: "replicate 4 (Wake 0 []) = [Wake 0 [], Wake 0 [], Wake 0 [], Wake 0 []]"
    by (simp add: eval_nat_numeral)
  show ?thesis unfolding r using assms
    by (simp add: step_wake_single resume_def countdown_loop_def Let_def beep_300
          send_command_mc_def remaining_display_def eval_nat_numeral)
qed

lemma countdown_sleeping_run:
  assumes "arduino c" "running c" "timer_active_mc c"
  shows "run (replicate (n + 4) (Wake 0 [])) \<lparr>ctl = c, tasks = [Countdown_sleeping (int n)]\<rparr> =
     \<lparr>ctl = c\<lparr>written := written c @ map remaining_display (rev [0..int n]) @
                   replicate 3 ''BUZZER:BEEP:300'',
               timer_active_mc := False\<rparr>,
      tasks = [Finished]\<rparr>"
  using assms
proof (induction n arbitrary: c)
  case 0
  from countdown_at_zero[OF 0] show ?case by simp
next
  case (Suc n)
  let ?c1 = "c\<lparr>written := written c @ [remaining_display (int (Suc n))]\<rparr>"
  have s: "step (Wake 0 []) \<lparr>ctl = c, tasks = [Countdown_sleeping (int (Suc n))]\<rparr> =
           \<lparr>ctl = ?c1, tasks = [Countdown_sleeping (int n)]\<rparr>"
    using Suc.prems
    by (simp add: step_wake_single resume_def countdown_loop_def Let_def send_command_mc_def
          remaining_display_def)
  have a: "arduino ?c1" "running ?c1" "timer_active_mc ?c1" using Suc.prems by simp_all
  have u: "rev [0..int (Suc n)] = int (Suc n) # rev [0..int n]"
    by (simp add: upto_rec2)
  have "run (replicate (Suc n + 4) (Wake 0 [])) \<lparr>ctl = c, tasks = [Countdown_sleeping (int (Suc n))]\<rparr>
      = run (replicate (n + 4) (Wake 0 [])) \<lparr>ctl = ?c1, tasks = [Countdown_sleeping (int n)]\<rparr>"
  proof -
    have "Suc n + 4 = Suc (n + 4)" by simp
    then show ?thesis using s by (simp only: run_replicate_Suc)
  qed
  also note Suc.IH[OF a]
  finally show ?case unfolding u by simp
qed


text \<open>
  Claim C8 fails on the number of values: the countdown started with \<^verbatim>\<open>(0, 3)\<close> and left
  alone writes four values to the numeric display, the last of them zero, before its
  three beeps.
\<close>

theorem countdown_0_3_writes_four_values:
  "written (ctl (countdown_alone 0 3 7)) =
     [''TM1637:NUM:0003'', ''TM1637:NUM:0002'', ''TM1637:NUM:0001'', ''TM1637:NUM:0000'',
      ''BUZZER:BEEP:300'', ''BUZZER:BEEP:300'', ''BUZZER:BEEP:300''] \<and>
   length (filter (starts_with ''TM1637:NUM:'') (written (ctl (countdown_alone 0 3 7)))) \<noteq> 3 \<and>
   tasks (countdown_alone 0 3 7) = [Finished]"
  by code_simp

text \<open>
  Claim C8, amended. A countdown of \<open>total\<close> seconds, \<open>total \<ge> 0\<close>, that runs alone on
  a connected, running controller writes the \<open>total + 1\<close> remaining times from \<open>total\<close>
  down to zero, one each time it is resumed, then sends \<^verbatim>\<open>BUZZER:BEEP:300\<close> three times and
  finishes with \<^verbatim>\<open>timer_active\<close> reset, after \<open>total + 4\<close> resumptions and no command from
  the user. Started with \<^verbatim>\<open>(0, 3)\<close> it writes 0003, 0002, 0001 and 0000.
\<close>

theorem countdown_runs_down_to_zero_then_beeps:
  assumes "0 \<le> minutes * 60 + seconds"
  shows "countdown_alone minutes seconds (nat (minutes * 60 + seconds) + 4) =
     \<lparr>ctl = idle\<lparr>written := map remaining_display (rev [0..minutes * 60 + seconds]) @
                     replicate 3 ''BUZZER:BEEP:300''\<rparr>,
      tasks = [Finished]\<rparr>"
proof -
  let ?t = "minutes * 60 + seconds"
  let ?c = "idle\<lparr>timer_active_mc := True\<rparr>"
  have a: "arduino ?c" "running ?c" "timer_active_mc ?c" by (simp_all add: idle_def)
  have first: "step (Wake 0 []) \<lparr>ctl = idle, tasks = [Countdown_created minutes seconds]\<rparr> =
               step (Wake 0 []) \<lparr>ctl = ?c, tasks = [Countdown_sleeping ?t]\<rparr>"
    by (simp add: step_wake_single resume_def)
  have n: "nat ?t + 4 = Suc (nat ?t + 3)" by simp
  have "countdown_alone minutes seconds (nat ?t + 4) =
        run (replicate (nat ?t + 4) (Wake 0 [])) \<lparr>ctl = ?c, tasks = [Countdown_sleeping ?t]\<rparr>"
    unfolding countdown_alone_def n run_replicate_Suc first ..
  also have "\<dots> = run (replicate (nat ?t + 4) (Wake 0 []))
                    \<lparr>ctl = ?c, tasks = [Countdown_sleeping (int (nat ?t))]\<rparr>"
    using assms by simp
  also note countdown_sleeping_run[OF a, of "nat ?t"]
  finally show ?thesis using assms by (simp add: idle_def)
qed

theorem countdown_runs_down_to_zero_then_beeps_witness:
  "(0::int) \<le> 0 * 60 + 3 \<and>
   countdown_alone 0 3 7 =
     \<lparr>ctl = idle\<lparr>written :=
        [''TM1637:NUM:0003'', ''TM1637:NUM:0002'', ''TM1637:NUM:0001'', ''TM1637:NUM:0000'',
         ''BUZZER:BEEP:300'', ''BUZZER:BEEP:300'', ''BUZZER:BEEP:300'']\<rparr>,
      tasks = [Finished]\<rparr>"
proof -
  have h: "(0::int) \<le> 0 * 60 + 3" by simp
  have v: "map remaining_display (rev [0..3]) =
     [''TM1637:NUM:0003'', ''TM1637:NUM:0002'', ''TM1637:NUM:0001'', ''TM1637:NUM:0000'']"
    by code_simp
  from countdown_runs_down_to_zero_then_beeps[OF h] v show ?thesis
    by (simp add: eval_nat_numeral)
qed

text \<open>
  Claim C4 on the console: \<^verbatim>\<open>display timer:0:5\<close> entered while the countdown of
  \<^verbatim>\<open>display timer:0:3\<close> is asleep stops the clock routine only. Both countdowns are then
  alive, and the first one writes 0002 after the second one has written 0005.
\<close>

theorem second_timer_runs_beside_the_first:
  "written (ctl (run two_timers \<lparr>ctl = idle, tasks = []\<rparr>)) =
     [''TM1637:NUM:0003'', ''TM1637:NUM:0005'', ''TM1637:NUM:0002''] \<and>
   live (run two_timers \<lparr>ctl = idle, tasks = []\<rparr>) =
     [Countdown_sleeping 1, Countdown_sleeping 4]"
  by code_simp

text \<open>
  The routine of the other kind is stopped: \<^verbatim>\<open>display timer:0:5\<close> entered while the clock
  routine is asleep ends the clock, which writes nothing more when it wakes.
\<close>

lemma timer_after_clock_stops_the_clock:
  "written (ctl (run
     [Display_command [''display'', ''clock''], Wake 0 ''1230'',
      Display_command [''display'', ''timer:0:5''], Wake 1 [], Wake 0 ''1230'']
     \<lparr>ctl = idle, tasks = []\<rparr>)) = [''TM1637:NUM:1230'', ''TM1637:NUM:0005''] \<and>
   live (run
     [Display_command [''display'', ''clock''], Wake 0 ''1230'',
      Display_command [''display'', ''timer:0:5''], Wake 1 [], Wake 0 ''1230'']
     \<lparr>ctl = idle, tasks = []\<rparr>) = [Countdown_sleeping 4]"
  by code_simp

end
